theory Spec2Isabelle
  imports Main "HOL-Library.Word"
begin

section \<open>Marketplace chaincode (v0.6): a shallow embedding\<close>

text \<open>
  The development follows \<^verbatim>\<open>src/v0.6/bc_marketplace_cc.go\<close>. Go strings and byte
  slices are \<^typ>\<open>string\<close> (lists of bytes), Go's \<^verbatim>\<open>int\<close> is a 64-bit word read as
  a signed number, structs are records, and every function that touches the ledger takes
  the stub and returns it updated. A Go result \<^verbatim>\<open>(value, error)\<close> is a pair whose
  second component is \<^term>\<open>None\<close> for \<^verbatim>\<open>nil\<close>; the value is kept next to an
  error because several callers in the source ignore the error and go on with the value.
\<close>

subsection \<open>Text of integers (\<^verbatim>\<open>strconv.Itoa\<close>)\<close>

definition is_digit :: "char \<Rightarrow> bool" where
  "is_digit c = (c \<in> set ''0123456789'')"

text \<open>A digit's value is its position in the string of the ten digits.\<close>

definition digit_val :: "char \<Rightarrow> int" where
  "digit_val c = int (length (takeWhile (\<lambda>d. d \<noteq> c) ''0123456789''))"

definition digit_char :: "int \<Rightarrow> char" where
  "digit_char d = (if 0 \<le> d \<and> d < 10 then ''0123456789'' ! nat d else CHR ''?'')"

text \<open>The decimal digits of a number that is not negative.\<close>

function digits :: "int \<Rightarrow> string" where
  "digits n = (if n < 10 then [digit_char n] else digits (n div 10) @ [digit_char (n mod 10)])"
  by pat_completeness auto
termination
  by (relation "measure nat") auto

declare digits.simps [simp del]

definition int_of_digits :: "string \<Rightarrow> int" where
  "int_of_digits ds = foldl (\<lambda>a c. 10 * a + digit_val c) 0 ds"

definition Itoa_int :: "int \<Rightarrow> string" where
  "Itoa_int i = (if i < 0 then CHR ''-'' # digits (- i) else digits i)"

type_synonym goint = "64 word"

definition Itoa :: "goint \<Rightarrow> string" where
  "Itoa w = Itoa_int (sint w)"

subsection \<open>The JSON library (\<^verbatim>\<open>encoding/json\<close>)\<close>

text \<open>
  \<^verbatim>\<open>encoding/json\<close> is not part of the repository. It is modelled in two layers: a
  reader and a writer between text and JSON trees, and, per struct of the source, the
  mapping between a tree and the struct that the struct's \<^verbatim>\<open>json:"..."\<close> tags
  describe. The reader covers objects, arrays, strings with the two-character escapes,
  integers, \<^verbatim>\<open>true\<close>, \<^verbatim>\<open>false\<close>, \<^verbatim>\<open>null\<close> and white space; \<^verbatim>\<open>\u\<close> escapes
  and numbers with a fraction or an exponent are read as malformed. The writer escapes
  the quote and the backslash only, and writes an empty slice as \<^verbatim>\<open>[]\<close> (Go writes a
  nil slice as \<^verbatim>\<open>null\<close>; the model does not tell nil from empty).
\<close>

datatype json =
    JNull
  | JBool bool
  | JNum int
  | JStr string
  | JArr "json list"
  | JObj "(string \<times> json) list"

definition quote :: char where
  "quote = CHR 0x22"

definition backslash :: char where
  "backslash = CHR 0x5C"

definition is_ws :: "char \<Rightarrow> bool" where
  "is_ws c = (c = CHR '' '' \<or> c = CHR 0x09 \<or> c = CHR 0x0A \<or> c = CHR 0x0D)"

definition skip_ws :: "string \<Rightarrow> string" where
  "skip_ws cs = dropWhile is_ws cs"

definition unescape :: "char \<Rightarrow> char option" where
  "unescape e =
     (if e = quote then Some quote
      else if e = backslash then Some backslash
      else if e = CHR ''/'' then Some (CHR ''/'')
      else if e = CHR ''b'' then Some (CHR 0x08)
      else if e = CHR ''f'' then Some (CHR 0x0C)
      else if e = CHR ''n'' then Some (CHR 0x0A)
      else if e = CHR ''r'' then Some (CHR 0x0D)
      else if e = CHR ''t'' then Some (CHR 0x09)
      else None)"

text \<open>The characters of a string literal, after its opening quote.\<close>

fun parse_chars :: "string \<Rightarrow> (string \<times> string) option" where
  "parse_chars [] = None"
| "parse_chars [c] = (if c = quote then Some ([], []) else None)"
| "parse_chars (c # e # r) =
     (if c = quote then Some ([], e # r)
      else if c = backslash then
        (case unescape e of
           None \<Rightarrow> None
         | Some x \<Rightarrow> (case parse_chars r of None \<Rightarrow> None | Some (s, r') \<Rightarrow> Some (x # s, r')))
      else (case parse_chars (e # r) of None \<Rightarrow> None | Some (s, r') \<Rightarrow> Some (c # s, r')))"

definition parse_number :: "string \<Rightarrow> (json \<times> string) option" where
  "parse_number cs =
     (let neg = (cs \<noteq> [] \<and> hd cs = CHR ''-'');
          r = (if neg then tl cs else cs);
          ds = takeWhile is_digit r;
          rest = dropWhile is_digit r
      in if ds = [] then None
         else if 1 < length ds \<and> hd ds = CHR ''0'' then None
         else if rest \<noteq> [] \<and> hd rest \<in> {CHR ''.'', CHR ''e'', CHR ''E''} then None
         else Some (JNum (if neg then - int_of_digits ds else int_of_digits ds), rest))"

fun parse_value :: "nat \<Rightarrow> string \<Rightarrow> (json \<times> string) option"
  and parse_elems :: "nat \<Rightarrow> string \<Rightarrow> (json list \<times> string) option"
  and parse_members :: "nat \<Rightarrow> string \<Rightarrow> ((string \<times> json) list \<times> string) option" where
  "parse_value 0 cs = None"
| "parse_value (Suc n) cs =
     (case skip_ws cs of
        [] \<Rightarrow> None
      | c # r \<Rightarrow>
          if c = quote then
            (case parse_chars r of None \<Rightarrow> None | Some (s, r') \<Rightarrow> Some (JStr s, r'))
          else if c = CHR ''['' then
            (if skip_ws r \<noteq> [] \<and> hd (skip_ws r) = CHR '']'' then Some (JArr [], tl (skip_ws r))
             else (case parse_elems n r of None \<Rightarrow> None | Some (vs, r') \<Rightarrow> Some (JArr vs, r')))
          else if c = CHR ''{'' then
            (if skip_ws r \<noteq> [] \<and> hd (skip_ws r) = CHR ''}'' then Some (JObj [], tl (skip_ws r))
             else (case parse_members n r of None \<Rightarrow> None | Some (kvs, r') \<Rightarrow> Some (JObj kvs, r')))
          else if take 4 (c # r) = ''null'' then Some (JNull, drop 4 (c # r))
          else if take 4 (c # r) = ''true'' then Some (JBool True, drop 4 (c # r))
          else if take 5 (c # r) = ''false'' then Some (JBool False, drop 5 (c # r))
          else parse_number (c # r))"
| "parse_elems 0 cs = None"
| "parse_elems (Suc n) cs =
     (case parse_value n cs of
        None \<Rightarrow> None
      | Some (v, r) \<Rightarrow>
          (case skip_ws r of
             [] \<Rightarrow> None
           | d # r' \<Rightarrow>
               if d = CHR '','' then
                 (case parse_elems n r' of None \<Rightarrow> None | Some (vs, r'') \<Rightarrow> Some (v # vs, r''))
               else if d = CHR '']'' then Some ([v], r')
               else None))"
| "parse_members 0 cs = None"
| "parse_members (Suc n) cs =
     (case skip_ws cs of
        [] \<Rightarrow> None
      | q # r \<Rightarrow>
          if q \<noteq> quote then None
          else
            (case parse_chars r of
               None \<Rightarrow> None
             | Some (k, r1) \<Rightarrow>
                 (case skip_ws r1 of
                    [] \<Rightarrow> None
                  | col # r2 \<Rightarrow>
                      if col \<noteq> CHR '':'' then None
                      else
                        (case parse_value n r2 of
                           None \<Rightarrow> None
                         | Some (v, r3) \<Rightarrow>
                             (case skip_ws r3 of
                                [] \<Rightarrow> None
                              | d # r4 \<Rightarrow>
                                  if d = CHR '','' then
                                    (case parse_members n r4 of
                                       None \<Rightarrow> None
                                     | Some (kvs, r5) \<Rightarrow> Some ((k, v) # kvs, r5))
                                  else if d = CHR ''}'' then Some ([(k, v)], r4)
                                  else None)))))"

definition parse_json :: "string \<Rightarrow> json option" where
  "parse_json cs =
     (case parse_value (2 * length cs + 2) cs of
        None \<Rightarrow> None
      | Some (v, r) \<Rightarrow> if skip_ws r = [] then Some v else None)"

definition escape :: "char \<Rightarrow> string" where
  "escape c = (if c = quote then [backslash, quote]
               else if c = backslash then [backslash, backslash]
               else [c])"

definition render_string :: "string \<Rightarrow> string" where
  "render_string s = quote # concat (map escape s) @ [quote]"

fun render :: "json \<Rightarrow> string"
  and render_elems :: "json list \<Rightarrow> string"
  and render_members :: "(string \<times> json) list \<Rightarrow> string" where
  "render JNull = ''null''"
| "render (JBool b) = (if b then ''true'' else ''false'')"
| "render (JNum n) = Itoa_int n"
| "render (JStr s) = render_string s"
| "render (JArr vs) = ''['' @ render_elems vs @ '']''"
| "render (JObj kvs) = ''{'' @ render_members kvs @ ''}''"
| "render_elems [] = []"
| "render_elems (v # vs) = render v @ (if vs = [] then [] else '','' @ render_elems vs)"
| "render_members [] = []"
| "render_members (kv # kvs) =
     render_string (fst kv) @ '':'' @ render (snd kv) @
     (if kvs = [] then [] else '','' @ render_members kvs)"


subsection \<open>Decoding and encoding of fields\<close>

text \<open>
  \<^verbatim>\<open>json.Unmarshal\<close> walks the members of an object in order; a member whose key
  matches a field (ignoring case) is decoded into it, \<^verbatim>\<open>null\<close> leaves the field as it
  is, and a value of the wrong type leaves the field as it is and makes the call return
  an error after the other members have been decoded. The flag in the result of the
  functions below is that error.
\<close>

datatype error = InvalidInput | Forbidden | InvalidType | SerializationFailure

text \<open>
  Matching ignores the case of ASCII letters. A capital letter is a byte from
  \<^verbatim>\<open>0x41\<close> to \<^verbatim>\<open>0x5A\<close>: the bits \<^verbatim>\<open>010xxxxx\<close> with \<^verbatim>\<open>xxxxx\<close> from 1 to 26;
  its small letter has bit 5 set.
\<close>

definition lower :: "char \<Rightarrow> char" where
  "lower c =
     (case c of
        Char b0 b1 b2 b3 b4 b5 b6 b7 \<Rightarrow>
          if \<not> b7 \<and> b6 \<and> \<not> b5 \<and> (b0 \<or> b1 \<or> b2 \<or> b3 \<or> b4)
             \<and> \<not> (b4 \<and> b3 \<and> (b2 \<or> (b1 \<and> b0)))
          then Char b0 b1 b2 b3 b4 True b6 b7
          else c)"

definition lowercase :: "string \<Rightarrow> string" where
  "lowercase s = map lower s"

definition fold_keys :: "(string \<times> json) list \<Rightarrow> (string \<times> json) list" where
  "fold_keys kvs = map (\<lambda>kv. (lowercase (fst kv), snd kv)) kvs"

text \<open>
  The values of the members that match a tag, in the order of the document; the keys of
  the members have been folded to lower case.
\<close>

definition vals :: "string \<Rightarrow> (string \<times> json) list \<Rightarrow> json list" where
  "vals k ms = map snd (filter (\<lambda>kv. fst kv = lowercase k) ms)"

definition set_string :: "string \<times> bool \<Rightarrow> json \<Rightarrow> string \<times> bool" where
  "set_string cur j =
     (case j of JStr s \<Rightarrow> (s, snd cur) | JNull \<Rightarrow> cur | _ \<Rightarrow> (fst cur, True))"

definition set_int :: "goint \<times> bool \<Rightarrow> json \<Rightarrow> goint \<times> bool" where
  "set_int cur j =
     (case j of
        JNum n \<Rightarrow> if - (2 ^ 63) \<le> n \<and> n < 2 ^ 63 then (word_of_int n, snd cur)
                  else (fst cur, True)
      | JNull \<Rightarrow> cur
      | _ \<Rightarrow> (fst cur, True))"

definition elem_string :: "json \<Rightarrow> string \<times> bool" where
  "elem_string j = (case j of JStr s \<Rightarrow> (s, False) | JNull \<Rightarrow> ([], False) | _ \<Rightarrow> ([], True))"

definition set_strings :: "string list \<times> bool \<Rightarrow> json \<Rightarrow> string list \<times> bool" where
  "set_strings cur j =
     (case j of
        JArr vs \<Rightarrow> (map (\<lambda>v. fst (elem_string v)) vs,
                    snd cur \<or> list_ex (\<lambda>v. snd (elem_string v)) vs)
      | JNull \<Rightarrow> cur
      | _ \<Rightarrow> (fst cur, True))"

definition string_field :: "string \<Rightarrow> (string \<times> json) list \<Rightarrow> string \<Rightarrow> string \<times> bool" where
  "string_field k kvs init = foldl set_string (init, False) (vals k kvs)"

definition int_field :: "string \<Rightarrow> (string \<times> json) list \<Rightarrow> goint \<Rightarrow> goint \<times> bool" where
  "int_field k kvs init = foldl set_int (init, False) (vals k kvs)"

definition strings_field ::
  "string \<Rightarrow> (string \<times> json) list \<Rightarrow> string list \<Rightarrow> string list \<times> bool" where
  "strings_field k kvs init = foldl set_strings (init, False) (vals k kvs)"

definition JInt :: "goint \<Rightarrow> json" where
  "JInt w = JNum (sint w)"

definition JStrs :: "string list \<Rightarrow> json" where
  "JStrs xs = JArr (map JStr xs)"

definition unmarshal :: "(json \<Rightarrow> 'a \<times> bool) \<Rightarrow> 'a \<Rightarrow> string \<Rightarrow> 'a \<times> error option" where
  "unmarshal dec zero bytes =
     (case parse_json bytes of
        None \<Rightarrow> (zero, Some SerializationFailure)
      | Some j \<Rightarrow>
          (case dec j of
             (x, True) \<Rightarrow> (x, Some SerializationFailure)
           | (x, False) \<Rightarrow> (x, None)))"

text \<open>The key lists: \<^verbatim>\<open>[]string\<close>.\<close>

definition dec_strings :: "json \<Rightarrow> string list \<times> bool" where
  "dec_strings j = set_strings ([], False) j"

definition Unmarshal_strings :: "string \<Rightarrow> string list \<times> error option" where
  "Unmarshal_strings bytes = unmarshal dec_strings [] bytes"

definition Marshal_strings :: "string list \<Rightarrow> string" where
  "Marshal_strings xs = render (JStrs xs)"

subsection \<open>The structs of the source\<close>

record PersonalInfo =
  Firstname :: string
  Lastname :: string
  DOB :: string
  Phone :: string
  Mobile :: string
  Email :: string

record FinancialInfo =
  MonthlySalary :: goint
  OtherIncome :: goint
  OtherExpenditure :: goint
  MonthlyRent :: goint
  MonthlyLoanPayment :: goint

record MortgageApplication =
  ma_ID :: string
  ma_PropertyId :: string
  ma_LandId :: string
  ma_PermitId :: string
  ma_BuyerId :: string
  ma_AppraisalApplicationId :: string
  ma_SalesContractId :: string
  ma_PersonalInfo :: PersonalInfo
  ma_FinancialInfo :: FinancialInfo
  ma_Status :: string
  ma_RequestedAmount :: goint
  ma_FairMarketValue :: goint
  ma_ApprovedAmount :: goint
  ma_ReviewerId :: string
  ma_LastModifiedDate :: string

record SalesContract =
  sc_ID :: string
  sc_PropertyId :: string
  sc_BuyerId :: string
  sc_SellerId :: string
  sc_ReviewerId :: string
  sc_BuyerSignature :: string
  sc_SellerSignature :: string
  sc_Status :: string
  sc_Price :: goint
  sc_LastModifiedDate :: string

record AppraiserApplication =
  aa_ID :: string
  aa_MortgageApplicationId :: string
  aa_AppraiserId :: string
  aa_ReviewerId :: string
  aa_PropertyId :: string
  aa_Status :: string
  aa_FairMarketValue :: goint
  aa_LastModifiedDate :: string

record Buyer =
  buyer_ID :: string
  buyer_Affiliation :: goint
  buyer_MortgageApplications :: "string list"
  buyer_SalesContracts :: "string list"

record Seller =
  seller_ID :: string
  seller_Affiliation :: goint
  seller_SalesContracts :: "string list"

record Bank =
  bank_ID :: string
  bank_Affiliation :: goint
  bank_MortgageApplications :: "string list"
  bank_SalesContracts :: "string list"

record Appraiser =
  appraiser_ID :: string
  appraiser_Affiliation :: goint
  appraiser_AppraiserApplications :: "string list"

record MAUpdateSchema =
  mau_Status :: string
  mau_SalesContractId :: string
  mau_FairMarketValue :: goint
  mau_ApprovedAmount :: goint

record AAUpdateSchema =
  aau_Status :: string
  aau_FairMarketValue :: goint

record SCUpdateSchema =
  scu_Status :: string
  scu_BuyerSignature :: string
  scu_SellerSignature :: string
  scu_Price :: goint

record MALog =
  log_MortgageApplicationId :: string
  log_BuyerId :: string
  log_ReviewerId :: string
  log_Status :: string
  log_Action :: string
  log_Text :: string
  log_Timestamp :: string

record MALogHolder =
  MALogs :: "MALog list"


subsection \<open>The structs as JSON\<close>

text \<open>
  For every struct: its zero value, the object \<^verbatim>\<open>json.Marshal\<close> writes (the fields in
  the order of the declaration, under the names of the tags), the effect of decoding a
  JSON value into a variable of the struct's type, and \<^verbatim>\<open>json.Unmarshal\<close> into a
  fresh variable.
\<close>

definition zero_PersonalInfo :: PersonalInfo where
  "zero_PersonalInfo = \<lparr>Firstname = [], Lastname = [], DOB = [], Phone = [], Mobile = [], Email = []\<rparr>"

definition enc_PersonalInfo :: "PersonalInfo \<Rightarrow> json" where
  "enc_PersonalInfo x = JObj
      [(''firstname'', JStr (Firstname x)),
       (''lastname'', JStr (Lastname x)),
       (''dob'', JStr (DOB x)),
       (''phone'', JStr (Phone x)),
       (''mobile'', JStr (Mobile x)),
       (''email'', JStr (Email x))]"

definition set_PersonalInfo :: "PersonalInfo \<times> bool \<Rightarrow> json \<Rightarrow> PersonalInfo \<times> bool" where
  "set_PersonalInfo cur j =
     (case j of
        JObj kvs \<Rightarrow>
          (let kvs = fold_keys kvs;
               f1 = string_field ''firstname'' kvs (Firstname (fst cur));
               f2 = string_field ''lastname'' kvs (Lastname (fst cur));
               f3 = string_field ''dob'' kvs (DOB (fst cur));
               f4 = string_field ''phone'' kvs (Phone (fst cur));
               f5 = string_field ''mobile'' kvs (Mobile (fst cur));
               f6 = string_field ''email'' kvs (Email (fst cur))
           in (\<lparr>Firstname = fst f1, Lastname = fst f2, DOB = fst f3, Phone = fst f4, Mobile = fst f5, Email = fst f6\<rparr>,
               snd cur \<or> snd f1 \<or> snd f2 \<or> snd f3 \<or> snd f4 \<or> snd f5 \<or> snd f6))
      | JNull \<Rightarrow> cur
      | _ \<Rightarrow> (fst cur, True))"

definition zero_FinancialInfo :: FinancialInfo where
  "zero_FinancialInfo = \<lparr>MonthlySalary = 0, OtherIncome = 0, OtherExpenditure = 0, MonthlyRent = 0, MonthlyLoanPayment = 0\<rparr>"

definition enc_FinancialInfo :: "FinancialInfo \<Rightarrow> json" where
  "enc_FinancialInfo x = JObj
      [(''monthlySalary'', JInt (MonthlySalary x)),
       (''otherIncome'', JInt (OtherIncome x)),
       (''otherExpenditure'', JInt (OtherExpenditure x)),
       (''monthlyRent'', JInt (MonthlyRent x)),
       (''monthlyLoanPayment'', JInt (MonthlyLoanPayment x))]"

definition set_FinancialInfo :: "FinancialInfo \<times> bool \<Rightarrow> json \<Rightarrow> FinancialInfo \<times> bool" where
  "set_FinancialInfo cur j =
     (case j of
        JObj kvs \<Rightarrow>
          (let kvs = fold_keys kvs;
               f1 = int_field ''monthlySalary'' kvs (MonthlySalary (fst cur));
               f2 = int_field ''otherIncome'' kvs (OtherIncome (fst cur));
               f3 = int_field ''otherExpenditure'' kvs (OtherExpenditure (fst cur));
               f4 = int_field ''monthlyRent'' kvs (MonthlyRent (fst cur));
               f5 = int_field ''monthlyLoanPayment'' kvs (MonthlyLoanPayment (fst cur))
           in (\<lparr>MonthlySalary = fst f1, OtherIncome = fst f2, OtherExpenditure = fst f3, MonthlyRent = fst f4, MonthlyLoanPayment = fst f5\<rparr>,
               snd cur \<or> snd f1 \<or> snd f2 \<or> snd f3 \<or> snd f4 \<or> snd f5))
      | JNull \<Rightarrow> cur
      | _ \<Rightarrow> (fst cur, True))"

definition personal_field ::
  "string \<Rightarrow> (string \<times> json) list \<Rightarrow> PersonalInfo \<Rightarrow> PersonalInfo \<times> bool" where
  "personal_field k kvs init = foldl set_PersonalInfo (init, False) (vals k kvs)"

definition financial_field ::
  "string \<Rightarrow> (string \<times> json) list \<Rightarrow> FinancialInfo \<Rightarrow> FinancialInfo \<times> bool" where
  "financial_field k kvs init = foldl set_FinancialInfo (init, False) (vals k kvs)"

definition zero_MortgageApplication :: MortgageApplication where
  "zero_MortgageApplication =
     \<lparr>ma_ID = [], ma_PropertyId = [], ma_LandId = [], ma_PermitId = [], ma_BuyerId = [],
      ma_AppraisalApplicationId = [], ma_SalesContractId = [],
      ma_PersonalInfo = zero_PersonalInfo, ma_FinancialInfo = zero_FinancialInfo,
      ma_Status = [], ma_RequestedAmount = 0, ma_FairMarketValue = 0, ma_ApprovedAmount = 0,
      ma_ReviewerId = [], ma_LastModifiedDate = []\<rparr>"

definition enc_MortgageApplication :: "MortgageApplication \<Rightarrow> json" where
  "enc_MortgageApplication x = JObj
      [(''id'', JStr (ma_ID x)),
       (''propertyId'', JStr (ma_PropertyId x)),
       (''landId'', JStr (ma_LandId x)),
       (''permitId'', JStr (ma_PermitId x)),
       (''buyerId'', JStr (ma_BuyerId x)),
       (''appraiserApplicationId'', JStr (ma_AppraisalApplicationId x)),
       (''salesContractId'', JStr (ma_SalesContractId x)),
       (''personalInfo'', enc_PersonalInfo (ma_PersonalInfo x)),
       (''financialInfo'', enc_FinancialInfo (ma_FinancialInfo x)),
       (''status'', JStr (ma_Status x)),
       (''requestedAmount'', JInt (ma_RequestedAmount x)),
       (''fairMarketValue'', JInt (ma_FairMarketValue x)),
       (''approvedAmount'', JInt (ma_ApprovedAmount x)),
       (''reviewerId'', JStr (ma_ReviewerId x)),
       (''lastModifiedDate'', JStr (ma_LastModifiedDate x))]"

definition set_MortgageApplication ::
  "MortgageApplication \<times> bool \<Rightarrow> json \<Rightarrow> MortgageApplication \<times> bool" where
  "set_MortgageApplication cur j =
     (case j of
        JObj kvs \<Rightarrow>
          (let kvs = fold_keys kvs;
               f1 = string_field ''id'' kvs (ma_ID (fst cur));
               f2 = string_field ''propertyId'' kvs (ma_PropertyId (fst cur));
               f3 = string_field ''landId'' kvs (ma_LandId (fst cur));
               f4 = string_field ''permitId'' kvs (ma_PermitId (fst cur));
               f5 = string_field ''buyerId'' kvs (ma_BuyerId (fst cur));
               f6 = string_field ''appraiserApplicationId'' kvs
                      (ma_AppraisalApplicationId (fst cur));
               f7 = string_field ''salesContractId'' kvs (ma_SalesContractId (fst cur));
               f8 = personal_field ''personalInfo'' kvs (ma_PersonalInfo (fst cur));
               f9 = financial_field ''financialInfo'' kvs (ma_FinancialInfo (fst cur));
               f10 = string_field ''status'' kvs (ma_Status (fst cur));
               f11 = int_field ''requestedAmount'' kvs (ma_RequestedAmount (fst cur));
               f12 = int_field ''fairMarketValue'' kvs (ma_FairMarketValue (fst cur));
               f13 = int_field ''approvedAmount'' kvs (ma_ApprovedAmount (fst cur));
               f14 = string_field ''reviewerId'' kvs (ma_ReviewerId (fst cur));
               f15 = string_field ''lastModifiedDate'' kvs (ma_LastModifiedDate (fst cur))
           in (\<lparr>ma_ID = fst f1, ma_PropertyId = fst f2, ma_LandId = fst f3,
                ma_PermitId = fst f4, ma_BuyerId = fst f5, ma_AppraisalApplicationId = fst f6,
                ma_SalesContractId = fst f7, ma_PersonalInfo = fst f8,
                ma_FinancialInfo = fst f9, ma_Status = fst f10, ma_RequestedAmount = fst f11,
                ma_FairMarketValue = fst f12, ma_ApprovedAmount = fst f13,
                ma_ReviewerId = fst f14, ma_LastModifiedDate = fst f15\<rparr>,
               snd cur \<or> snd f1 \<or> snd f2 \<or> snd f3 \<or> snd f4 \<or> snd f5 \<or> snd f6 \<or> snd f7
               \<or> snd f8 \<or> snd f9 \<or> snd f10 \<or> snd f11 \<or> snd f12 \<or> snd f13 \<or> snd f14
               \<or> snd f15))
      | JNull \<Rightarrow> cur
      | _ \<Rightarrow> (fst cur, True))"

definition dec_MortgageApplication :: "json \<Rightarrow> MortgageApplication \<times> bool" where
  "dec_MortgageApplication j = set_MortgageApplication (zero_MortgageApplication, False) j"

definition Unmarshal_MortgageApplication :: "string \<Rightarrow> MortgageApplication \<times> error option" where
  "Unmarshal_MortgageApplication bytes =
     unmarshal dec_MortgageApplication zero_MortgageApplication bytes"

definition Marshal_MortgageApplication :: "MortgageApplication \<Rightarrow> string" where
  "Marshal_MortgageApplication x = render (enc_MortgageApplication x)"

definition zero_SalesContract :: SalesContract where
  "zero_SalesContract = \<lparr>sc_ID = [], sc_PropertyId = [], sc_BuyerId = [], sc_SellerId = [], sc_ReviewerId = [], sc_BuyerSignature = [], sc_SellerSignature = [], sc_Status = [], sc_Price = 0, sc_LastModifiedDate = []\<rparr>"

definition enc_SalesContract :: "SalesContract \<Rightarrow> json" where
  "enc_SalesContract x = JObj
      [(''id'', JStr (sc_ID x)),
       (''propertyId'', JStr (sc_PropertyId x)),
       (''buyerId'', JStr (sc_BuyerId x)),
       (''sellerId'', JStr (sc_SellerId x)),
       (''reviewerId'', JStr (sc_ReviewerId x)),
       (''buyerSignature'', JStr (sc_BuyerSignature x)),
       (''sellerSignature'', JStr (sc_SellerSignature x)),
       (''status'', JStr (sc_Status x)),
       (''price'', JInt (sc_Price x)),
       (''lastModifiedDate'', JStr (sc_LastModifiedDate x))]"

definition set_SalesContract :: "SalesContract \<times> bool \<Rightarrow> json \<Rightarrow> SalesContract \<times> bool" where
  "set_SalesContract cur j =
     (case j of
        JObj kvs \<Rightarrow>
          (let kvs = fold_keys kvs;
               f1 = string_field ''id'' kvs (sc_ID (fst cur));
               f2 = string_field ''propertyId'' kvs (sc_PropertyId (fst cur));
               f3 = string_field ''buyerId'' kvs (sc_BuyerId (fst cur));
               f4 = string_field ''sellerId'' kvs (sc_SellerId (fst cur));
               f5 = string_field ''reviewerId'' kvs (sc_ReviewerId (fst cur));
               f6 = string_field ''buyerSignature'' kvs (sc_BuyerSignature (fst cur));
               f7 = string_field ''sellerSignature'' kvs (sc_SellerSignature (fst cur));
               f8 = string_field ''status'' kvs (sc_Status (fst cur));
               f9 = int_field ''price'' kvs (sc_Price (fst cur));
               f10 = string_field ''lastModifiedDate'' kvs (sc_LastModifiedDate (fst cur))
           in (\<lparr>sc_ID = fst f1, sc_PropertyId = fst f2, sc_BuyerId = fst f3, sc_SellerId = fst f4, sc_ReviewerId = fst f5, sc_BuyerSignature = fst f6, sc_SellerSignature = fst f7, sc_Status = fst f8, sc_Price = fst f9, sc_LastModifiedDate = fst f10\<rparr>,
               snd cur \<or> snd f1 \<or> snd f2 \<or> snd f3 \<or> snd f4 \<or> snd f5 \<or> snd f6 \<or> snd f7 \<or> snd f8 \<or> snd f9 \<or> snd f10))
      | JNull \<Rightarrow> cur
      | _ \<Rightarrow> (fst cur, True))"

definition dec_SalesContract :: "json \<Rightarrow> SalesContract \<times> bool" where
  "dec_SalesContract j = set_SalesContract (zero_SalesContract, False) j"

definition Unmarshal_SalesContract :: "string \<Rightarrow> SalesContract \<times> error option" where
  "Unmarshal_SalesContract bytes = unmarshal dec_SalesContract zero_SalesContract bytes"

definition Marshal_SalesContract :: "SalesContract \<Rightarrow> string" where
  "Marshal_SalesContract x = render (enc_SalesContract x)"

definition zero_AppraiserApplication :: AppraiserApplication where
  "zero_AppraiserApplication = \<lparr>aa_ID = [], aa_MortgageApplicationId = [], aa_AppraiserId = [], aa_ReviewerId = [], aa_PropertyId = [], aa_Status = [], aa_FairMarketValue = 0, aa_LastModifiedDate = []\<rparr>"

definition enc_AppraiserApplication :: "AppraiserApplication \<Rightarrow> json" where
  "enc_AppraiserApplication x = JObj
      [(''id'', JStr (aa_ID x)),
       (''mortgageApplicationId'', JStr (aa_MortgageApplicationId x)),
       (''appraiserId'', JStr (aa_AppraiserId x)),
       (''reviewerId'', JStr (aa_ReviewerId x)),
       (''propertyId'', JStr (aa_PropertyId x)),
       (''status'', JStr (aa_Status x)),
       (''fairMarketValue'', JInt (aa_FairMarketValue x)),
       (''lastModifiedDate'', JStr (aa_LastModifiedDate x))]"

definition set_AppraiserApplication :: "AppraiserApplication \<times> bool \<Rightarrow> json \<Rightarrow> AppraiserApplication \<times> bool" where
  "set_AppraiserApplication cur j =
     (case j of
        JObj kvs \<Rightarrow>
          (let kvs = fold_keys kvs;
               f1 = string_field ''id'' kvs (aa_ID (fst cur));
               f2 = string_field ''mortgageApplicationId'' kvs (aa_MortgageApplicationId (fst cur));
               f3 = string_field ''appraiserId'' kvs (aa_AppraiserId (fst cur));
               f4 = string_field ''reviewerId'' kvs (aa_ReviewerId (fst cur));
               f5 = string_field ''propertyId'' kvs (aa_PropertyId (fst cur));
               f6 = string_field ''status'' kvs (aa_Status (fst cur));
               f7 = int_field ''fairMarketValue'' kvs (aa_FairMarketValue (fst cur));
               f8 = string_field ''lastModifiedDate'' kvs (aa_LastModifiedDate (fst cur))
           in (\<lparr>aa_ID = fst f1, aa_MortgageApplicationId = fst f2, aa_AppraiserId = fst f3, aa_ReviewerId = fst f4, aa_PropertyId = fst f5, aa_Status = fst f6, aa_FairMarketValue = fst f7, aa_LastModifiedDate = fst f8\<rparr>,
               snd cur \<or> snd f1 \<or> snd f2 \<or> snd f3 \<or> snd f4 \<or> snd f5 \<or> snd f6 \<or> snd f7 \<or> snd f8))
      | JNull \<Rightarrow> cur
      | _ \<Rightarrow> (fst cur, True))"

definition dec_AppraiserApplication :: "json \<Rightarrow> AppraiserApplication \<times> bool" where
  "dec_AppraiserApplication j = set_AppraiserApplication (zero_AppraiserApplication, False) j"

definition Unmarshal_AppraiserApplication :: "string \<Rightarrow> AppraiserApplication \<times> error option" where
  "Unmarshal_AppraiserApplication bytes = unmarshal dec_AppraiserApplication zero_AppraiserApplication bytes"

definition Marshal_AppraiserApplication :: "AppraiserApplication \<Rightarrow> string" where
  "Marshal_AppraiserApplication x = render (enc_AppraiserApplication x)"

definition zero_Buyer :: Buyer where
  "zero_Buyer = \<lparr>buyer_ID = [], buyer_Affiliation = 0, buyer_MortgageApplications = [], buyer_SalesContracts = []\<rparr>"

definition enc_Buyer :: "Buyer \<Rightarrow> json" where
  "enc_Buyer x = JObj
      [(''id'', JStr (buyer_ID x)),
       (''affiliation'', JInt (buyer_Affiliation x)),
       (''mortgageApplications'', JStrs (buyer_MortgageApplications x)),
       (''salesContracts'', JStrs (buyer_SalesContracts x))]"

definition set_Buyer :: "Buyer \<times> bool \<Rightarrow> json \<Rightarrow> Buyer \<times> bool" where
  "set_Buyer cur j =
     (case j of
        JObj kvs \<Rightarrow>
          (let kvs = fold_keys kvs;
               f1 = string_field ''id'' kvs (buyer_ID (fst cur));
               f2 = int_field ''affiliation'' kvs (buyer_Affiliation (fst cur));
               f3 = strings_field ''mortgageApplications'' kvs (buyer_MortgageApplications (fst cur));
               f4 = strings_field ''salesContracts'' kvs (buyer_SalesContracts (fst cur))
           in (\<lparr>buyer_ID = fst f1, buyer_Affiliation = fst f2, buyer_MortgageApplications = fst f3, buyer_SalesContracts = fst f4\<rparr>,
               snd cur \<or> snd f1 \<or> snd f2 \<or> snd f3 \<or> snd f4))
      | JNull \<Rightarrow> cur
      | _ \<Rightarrow> (fst cur, True))"

definition dec_Buyer :: "json \<Rightarrow> Buyer \<times> bool" where
  "dec_Buyer j = set_Buyer (zero_Buyer, False) j"

definition Unmarshal_Buyer :: "string \<Rightarrow> Buyer \<times> error option" where
  "Unmarshal_Buyer bytes = unmarshal dec_Buyer zero_Buyer bytes"

definition Marshal_Buyer :: "Buyer \<Rightarrow> string" where
  "Marshal_Buyer x = render (enc_Buyer x)"

definition zero_Seller :: Seller where
  "zero_Seller = \<lparr>seller_ID = [], seller_Affiliation = 0, seller_SalesContracts = []\<rparr>"

definition enc_Seller :: "Seller \<Rightarrow> json" where
  "enc_Seller x = JObj
      [(''id'', JStr (seller_ID x)),
       (''affiliation'', JInt (seller_Affiliation x)),
       (''salesContracts'', JStrs (seller_SalesContracts x))]"

definition set_Seller :: "Seller \<times> bool \<Rightarrow> json \<Rightarrow> Seller \<times> bool" where
  "set_Seller cur j =
     (case j of
        JObj kvs \<Rightarrow>
          (let kvs = fold_keys kvs;
               f1 = string_field ''id'' kvs (seller_ID (fst cur));
               f2 = int_field ''affiliation'' kvs (seller_Affiliation (fst cur));
               f3 = strings_field ''salesContracts'' kvs (seller_SalesContracts (fst cur))
           in (\<lparr>seller_ID = fst f1, seller_Affiliation = fst f2, seller_SalesContracts = fst f3\<rparr>,
               snd cur \<or> snd f1 \<or> snd f2 \<or> snd f3))
      | JNull \<Rightarrow> cur
      | _ \<Rightarrow> (fst cur, True))"

definition dec_Seller :: "json \<Rightarrow> Seller \<times> bool" where
  "dec_Seller j = set_Seller (zero_Seller, False) j"

definition Unmarshal_Seller :: "string \<Rightarrow> Seller \<times> error option" where
  "Unmarshal_Seller bytes = unmarshal dec_Seller zero_Seller bytes"

definition Marshal_Seller :: "Seller \<Rightarrow> string" where
  "Marshal_Seller x = render (enc_Seller x)"

definition zero_Bank :: Bank where
  "zero_Bank = \<lparr>bank_ID = [], bank_Affiliation = 0, bank_MortgageApplications = [], bank_SalesContracts = []\<rparr>"

definition enc_Bank :: "Bank \<Rightarrow> json" where
  "enc_Bank x = JObj
      [(''id'', JStr (bank_ID x)),
       (''affiliation'', JInt (bank_Affiliation x)),
       (''mortgageApplications'', JStrs (bank_MortgageApplications x)),
       (''salesContracts'', JStrs (bank_SalesContracts x))]"

definition set_Bank :: "Bank \<times> bool \<Rightarrow> json \<Rightarrow> Bank \<times> bool" where
  "set_Bank cur j =
     (case j of
        JObj kvs \<Rightarrow>
          (let kvs = fold_keys kvs;
               f1 = string_field ''id'' kvs (bank_ID (fst cur));
               f2 = int_field ''affiliation'' kvs (bank_Affiliation (fst cur));
               f3 = strings_field ''mortgageApplications'' kvs (bank_MortgageApplications (fst cur));
               f4 = strings_field ''salesContracts'' kvs (bank_SalesContracts (fst cur))
           in (\<lparr>bank_ID = fst f1, bank_Affiliation = fst f2, bank_MortgageApplications = fst f3, bank_SalesContracts = fst f4\<rparr>,
               snd cur \<or> snd f1 \<or> snd f2 \<or> snd f3 \<or> snd f4))
      | JNull \<Rightarrow> cur
      | _ \<Rightarrow> (fst cur, True))"

definition dec_Bank :: "json \<Rightarrow> Bank \<times> bool" where
  "dec_Bank j = set_Bank (zero_Bank, False) j"

definition Unmarshal_Bank :: "string \<Rightarrow> Bank \<times> error option" where
  "Unmarshal_Bank bytes = unmarshal dec_Bank zero_Bank bytes"

definition Marshal_Bank :: "Bank \<Rightarrow> string" where
  "Marshal_Bank x = render (enc_Bank x)"

definition zero_Appraiser :: Appraiser where
  "zero_Appraiser = \<lparr>appraiser_ID = [], appraiser_Affiliation = 0, appraiser_AppraiserApplications = []\<rparr>"

definition enc_Appraiser :: "Appraiser \<Rightarrow> json" where
  "enc_Appraiser x = JObj
      [(''id'', JStr (appraiser_ID x)),
       (''affiliation'', JInt (appraiser_Affiliation x)),
       (''appraiserApplications'', JStrs (appraiser_AppraiserApplications x))]"

definition set_Appraiser :: "Appraiser \<times> bool \<Rightarrow> json \<Rightarrow> Appraiser \<times> bool" where
  "set_Appraiser cur j =
     (case j of
        JObj kvs \<Rightarrow>
          (let kvs = fold_keys kvs;
               f1 = string_field ''id'' kvs (appraiser_ID (fst cur));
               f2 = int_field ''affiliation'' kvs (appraiser_Affiliation (fst cur));
               f3 = strings_field ''appraiserApplications'' kvs (appraiser_AppraiserApplications (fst cur))
           in (\<lparr>appraiser_ID = fst f1, appraiser_Affiliation = fst f2, appraiser_AppraiserApplications = fst f3\<rparr>,
               snd cur \<or> snd f1 \<or> snd f2 \<or> snd f3))
      | JNull \<Rightarrow> cur
      | _ \<Rightarrow> (fst cur, True))"

definition dec_Appraiser :: "json \<Rightarrow> Appraiser \<times> bool" where
  "dec_Appraiser j = set_Appraiser (zero_Appraiser, False) j"

definition Unmarshal_Appraiser :: "string \<Rightarrow> Appraiser \<times> error option" where
  "Unmarshal_Appraiser bytes = unmarshal dec_Appraiser zero_Appraiser bytes"

definition Marshal_Appraiser :: "Appraiser \<Rightarrow> string" where
  "Marshal_Appraiser x = render (enc_Appraiser x)"

definition zero_MAUpdateSchema :: MAUpdateSchema where
  "zero_MAUpdateSchema = \<lparr>mau_Status = [], mau_SalesContractId = [], mau_FairMarketValue = 0, mau_ApprovedAmount = 0\<rparr>"

definition enc_MAUpdateSchema :: "MAUpdateSchema \<Rightarrow> json" where
  "enc_MAUpdateSchema x = JObj
      [(''status'', JStr (mau_Status x)),
       (''salesContractId'', JStr (mau_SalesContractId x)),
       (''fairMarketValue'', JInt (mau_FairMarketValue x)),
       (''approvedAmount'', JInt (mau_ApprovedAmount x))]"

definition set_MAUpdateSchema :: "MAUpdateSchema \<times> bool \<Rightarrow> json \<Rightarrow> MAUpdateSchema \<times> bool" where
  "set_MAUpdateSchema cur j =
     (case j of
        JObj kvs \<Rightarrow>
          (let kvs = fold_keys kvs;
               f1 = string_field ''status'' kvs (mau_Status (fst cur));
               f2 = string_field ''salesContractId'' kvs (mau_SalesContractId (fst cur));
               f3 = int_field ''fairMarketValue'' kvs (mau_FairMarketValue (fst cur));
               f4 = int_field ''approvedAmount'' kvs (mau_ApprovedAmount (fst cur))
           in (\<lparr>mau_Status = fst f1, mau_SalesContractId = fst f2, mau_FairMarketValue = fst f3, mau_ApprovedAmount = fst f4\<rparr>,
               snd cur \<or> snd f1 \<or> snd f2 \<or> snd f3 \<or> snd f4))
      | JNull \<Rightarrow> cur
      | _ \<Rightarrow> (fst cur, True))"

definition dec_MAUpdateSchema :: "json \<Rightarrow> MAUpdateSchema \<times> bool" where
  "dec_MAUpdateSchema j = set_MAUpdateSchema (zero_MAUpdateSchema, False) j"

definition Unmarshal_MAUpdateSchema :: "string \<Rightarrow> MAUpdateSchema \<times> error option" where
  "Unmarshal_MAUpdateSchema bytes = unmarshal dec_MAUpdateSchema zero_MAUpdateSchema bytes"

definition Marshal_MAUpdateSchema :: "MAUpdateSchema \<Rightarrow> string" where
  "Marshal_MAUpdateSchema x = render (enc_MAUpdateSchema x)"


definition enc_AAUpdateSchema :: "AAUpdateSchema \<Rightarrow> json" where
  "enc_AAUpdateSchema x = JObj
      [(''status'', JStr (aau_Status x)),
       (''fairMarketValue'', JInt (aau_FairMarketValue x))]"




definition Marshal_AAUpdateSchema :: "AAUpdateSchema \<Rightarrow> string" where
  "Marshal_AAUpdateSchema x = render (enc_AAUpdateSchema x)"


definition enc_SCUpdateSchema :: "SCUpdateSchema \<Rightarrow> json" where
  "enc_SCUpdateSchema x = JObj
      [(''status'', JStr (scu_Status x)),
       (''buyerSignature'', JStr (scu_BuyerSignature x)),
       (''sellerSignature'', JStr (scu_SellerSignature x)),
       (''price'', JInt (scu_Price x))]"




definition Marshal_SCUpdateSchema :: "SCUpdateSchema \<Rightarrow> string" where
  "Marshal_SCUpdateSchema x = render (enc_SCUpdateSchema x)"

definition zero_MALog :: MALog where
  "zero_MALog = \<lparr>log_MortgageApplicationId = [], log_BuyerId = [], log_ReviewerId = [], log_Status = [], log_Action = [], log_Text = [], log_Timestamp = []\<rparr>"

definition enc_MALog :: "MALog \<Rightarrow> json" where
  "enc_MALog x = JObj
      [(''mortgageApplicationId'', JStr (log_MortgageApplicationId x)),
       (''buyerId'', JStr (log_BuyerId x)),
       (''reviewerId'', JStr (log_ReviewerId x)),
       (''status'', JStr (log_Status x)),
       (''action'', JStr (log_Action x)),
       (''text'', JStr (log_Text x)),
       (''timestamp'', JStr (log_Timestamp x))]"

definition set_MALog :: "MALog \<times> bool \<Rightarrow> json \<Rightarrow> MALog \<times> bool" where
  "set_MALog cur j =
     (case j of
        JObj kvs \<Rightarrow>
          (let kvs = fold_keys kvs;
               f1 = string_field ''mortgageApplicationId'' kvs (log_MortgageApplicationId (fst cur));
               f2 = string_field ''buyerId'' kvs (log_BuyerId (fst cur));
               f3 = string_field ''reviewerId'' kvs (log_ReviewerId (fst cur));
               f4 = string_field ''status'' kvs (log_Status (fst cur));
               f5 = string_field ''action'' kvs (log_Action (fst cur));
               f6 = string_field ''text'' kvs (log_Text (fst cur));
               f7 = string_field ''timestamp'' kvs (log_Timestamp (fst cur))
           in (\<lparr>log_MortgageApplicationId = fst f1, log_BuyerId = fst f2, log_ReviewerId = fst f3, log_Status = fst f4, log_Action = fst f5, log_Text = fst f6, log_Timestamp = fst f7\<rparr>,
               snd cur \<or> snd f1 \<or> snd f2 \<or> snd f3 \<or> snd f4 \<or> snd f5 \<or> snd f6 \<or> snd f7))
      | JNull \<Rightarrow> cur
      | _ \<Rightarrow> (fst cur, True))"

definition dec_MALog :: "json \<Rightarrow> MALog \<times> bool" where
  "dec_MALog j = set_MALog (zero_MALog, False) j"

definition Unmarshal_MALog :: "string \<Rightarrow> MALog \<times> error option" where
  "Unmarshal_MALog bytes = unmarshal dec_MALog zero_MALog bytes"

definition Marshal_MALog :: "MALog \<Rightarrow> string" where
  "Marshal_MALog x = render (enc_MALog x)"

text \<open>The logs: \<^verbatim>\<open>[]MALog\<close> and the holder around it.\<close>

definition set_MALogs :: "MALog list \<times> bool \<Rightarrow> json \<Rightarrow> MALog list \<times> bool" where
  "set_MALogs cur j =
     (case j of
        JArr vs \<Rightarrow> (let ds = map dec_MALog vs
                    in (map fst ds, snd cur \<or> list_ex snd ds))
      | JNull \<Rightarrow> cur
      | _ \<Rightarrow> (fst cur, True))"

definition dec_MALogs :: "json \<Rightarrow> MALog list \<times> bool" where
  "dec_MALogs j = set_MALogs ([], False) j"

definition Unmarshal_MALogs :: "string \<Rightarrow> MALog list \<times> error option" where
  "Unmarshal_MALogs bytes = unmarshal dec_MALogs [] bytes"

definition Marshal_MALogs :: "MALog list \<Rightarrow> string" where
  "Marshal_MALogs logs = render (JArr (map enc_MALog logs))"

definition enc_MALogHolder :: "MALogHolder \<Rightarrow> json" where
  "enc_MALogHolder lh = JObj [(''MALogs'', JArr (map enc_MALog (MALogs lh)))]"

definition dec_MALogHolder :: "json \<Rightarrow> MALogHolder \<times> bool" where
  "dec_MALogHolder j =
     (case j of
        JObj kvs \<Rightarrow>
          (let f1 = foldl set_MALogs ([], False) (vals ''MALogs'' (fold_keys kvs))
           in (\<lparr>MALogs = fst f1\<rparr>, snd f1))
      | JNull \<Rightarrow> (\<lparr>MALogs = []\<rparr>, False)
      | _ \<Rightarrow> (\<lparr>MALogs = []\<rparr>, True))"

definition Unmarshal_MALogHolder :: "string \<Rightarrow> MALogHolder \<times> error option" where
  "Unmarshal_MALogHolder bytes = unmarshal dec_MALogHolder \<lparr>MALogs = []\<rparr> bytes"

definition Marshal_MALogHolder :: "MALogHolder \<Rightarrow> string" where
  "Marshal_MALogHolder lh = render (enc_MALogHolder lh)"

subsection \<open>Constants of the source\<close>

definition landKeysName :: string where "landKeysName = ''landKeys''"
definition propertyKeysName :: string where "propertyKeysName = ''propertyKeys''"
definition propertyAdKeysName :: string where "propertyAdKeysName = ''propertyAdKeys''"
definition buyerKeysName :: string where "buyerKeysName = ''buyerKeys''"
definition sellerKeysName :: string where "sellerKeysName = ''sellerKeys''"
definition bankKeysName :: string where "bankKeysName = ''bankKeys''"
definition appraiserKeysName :: string where "appraiserKeysName = ''appraiserKeys''"
definition auditorKeysName :: string where "auditorKeysName = ''appraiserKeys''"
definition maKeysName :: string where "maKeysName = ''maKeys''"
definition scKeysName :: string where "scKeysName = ''scKeys''"
definition aaKeysName :: string where "aaKeysName = ''aaKeys''"
definition maLogKeysName :: string where "maLogKeysName = ''maLogKeys''"
definition bcLogsKey :: string where "bcLogsKey = ''bcLogsKey''"

definition typeLand :: string where "typeLand = ''land:''"
definition typePermit :: string where "typePermit = ''permit:''"
definition typeMortgageApplication :: string where "typeMortgageApplication = ''ma:''"
definition typeSalesContract :: string where "typeSalesContract = ''sc:''"
definition typeAppraiserApplication :: string where "typeAppraiserApplication = ''aa:''"
definition typeProperty :: string where "typeProperty = ''prop:''"
definition typePropertyAd :: string where "typePropertyAd = ''propad:''"
definition typeBuyer :: string where "typeBuyer = ''buyer:''"
definition typeSeller :: string where "typeSeller = ''seller:''"
definition typeBank :: string where "typeBank = ''bank:''"
definition typeAppraiser :: string where "typeAppraiser = ''appraiser:''"
definition typeUser :: string where "typeUser = ''user:''"
definition typeAuditor :: string where "typeAuditor = ''auditor:''"
definition typeMALog :: string where "typeMALog = ''malog:''"

definition BUYER :: goint where "BUYER = 1"
definition SELLER :: goint where "SELLER = 2"
definition BANK :: goint where "BANK = 3"
definition APPRAISER :: goint where "APPRAISER = 4"
definition AUDITOR :: goint where "AUDITOR = 5"
definition USER :: goint where "USER = 6"
definition LAND :: goint where "LAND = 7"
definition PROPERTY :: goint where "PROPERTY = 8"
definition PROPERTYAD :: goint where "PROPERTYAD = 9"
definition MORTGAGEAPPLICATION :: goint where "MORTGAGEAPPLICATION = 10"
definition SALESCONTRACT :: goint where "SALESCONTRACT = 11"
definition APPRAISERAPPLICATION :: goint where "APPRAISERAPPLICATION = 12"
definition MALOG :: goint where "MALOG = 13"

definition BUYER_A :: goint where "BUYER_A = 1"
definition SELLER_A :: goint where "SELLER_A = 2"
definition BANK_A :: goint where "BANK_A = 3"
definition APPRAISER_A :: goint where "APPRAISER_A = 4"
definition AUDITOR_A :: goint where "AUDITOR_A = 5"

subsection \<open>The ledger\<close>

text \<open>
  The stub is the ledger, a map from keys to byte strings, together with the time of the
  call as \<^verbatim>\<open>time.Now().Format("2006-01-02 15:04:05")\<close> prints it. Reading a key the
  ledger does not hold gives the empty byte string. The ledger is an external
  collaborator: its reads and writes are taken to succeed, so the branches of the source
  on an error of \<^verbatim>\<open>GetState\<close> or \<^verbatim>\<open>PutState\<close> have no counterpart here, and the
  \<^verbatim>\<open>Save\<close> functions, whose only error is that of \<^verbatim>\<open>PutState\<close>, return the stub
  (and the bytes written, where the source returns them).
\<close>

record stub =
  state :: "string \<rightharpoonup> string"
  nowTime :: string

definition GetState :: "stub \<Rightarrow> string \<Rightarrow> string" where
  "GetState stub key = (case state stub key of None \<Rightarrow> [] | Some bytes \<Rightarrow> bytes)"

definition PutState :: "stub \<Rightarrow> string \<Rightarrow> string \<Rightarrow> stub" where
  "PutState stub key bytes = stub\<lparr>state := (state stub)(key \<mapsto> bytes)\<rparr>"

subsection \<open>Key namespace and key lists\<close>

definition GetStateKey :: "string \<Rightarrow> goint \<Rightarrow> string \<times> error option" where
  "GetStateKey id' otype =
     (if otype = MORTGAGEAPPLICATION then (typeMortgageApplication @ id', None)
      else if otype = SALESCONTRACT then (typeSalesContract @ id', None)
      else if otype = APPRAISERAPPLICATION then (typeAppraiserApplication @ id', None)
      else if otype = USER then (typeUser @ id', None)
      else if otype = BUYER then (typeBuyer @ id', None)
      else if otype = SELLER then (typeSeller @ id', None)
      else if otype = BANK then (typeBank @ id', None)
      else if otype = APPRAISER then (typeAppraiser @ id', None)
      else if otype = AUDITOR then (typeAuditor @ id', None)
      else if otype = LAND then (typeLand @ id', None)
      else if otype = PROPERTY then (typeProperty @ id', None)
      else if otype = PROPERTYAD then (typePropertyAd @ id', None)
      else if otype = MALOG then (typeMALog @ id', None)
      else ([], Some InvalidType))"

text \<open>
  \<^verbatim>\<open>AddKey\<close> reads the list under \<^verbatim>\<open>keysName\<close> and, as in the source, writes the
  extended list under \<^verbatim>\<open>maKeysName\<close>.
\<close>

definition AddKey :: "stub \<Rightarrow> string \<Rightarrow> string \<Rightarrow> stub \<times> bool \<times> error option" where
  "AddKey stub id' keysName =
     (let maKeysBytes = GetState stub keysName in
      if length maKeysBytes = 0 then
        (PutState stub maKeysName (Marshal_strings ([] @ [id'])), True, None)
      else
        (case Unmarshal_strings maKeysBytes of
           (maKeys, Some err) \<Rightarrow> (stub, False, Some err)
         | (maKeys, None) \<Rightarrow>
             (PutState stub maKeysName (Marshal_strings (maKeys @ [id'])), True, None)))"

subsection \<open>Party records\<close>

definition GetBuyer :: "stub \<Rightarrow> string \<Rightarrow> stub \<times> Buyer \<times> error option" where
  "GetBuyer stub id' =
     (let bytes = GetState stub id' in
      if length bytes = 0 then
        (let buyer = \<lparr>buyer_ID = id', buyer_Affiliation = BUYER_A,
                       buyer_MortgageApplications = [], buyer_SalesContracts = []\<rparr>
         in (PutState stub id' (Marshal_Buyer buyer), buyer, None))
      else
        (case Unmarshal_Buyer bytes of
           (buyer, Some err) \<Rightarrow> (stub, buyer, Some SerializationFailure)
         | (buyer, None) \<Rightarrow> (stub, buyer, None)))"


definition GetBank :: "stub \<Rightarrow> string \<Rightarrow> stub \<times> Bank \<times> error option" where
  "GetBank stub id' =
     (let bytes = GetState stub id' in
      if length bytes = 0 then
        (let bank = \<lparr>bank_ID = id', bank_Affiliation = BANK_A,
                      bank_MortgageApplications = [], bank_SalesContracts = []\<rparr>
         in (PutState stub id' (Marshal_Bank bank), bank, None))
      else
        (case Unmarshal_Bank bytes of
           (bank, Some err) \<Rightarrow> (stub, bank, Some SerializationFailure)
         | (bank, None) \<Rightarrow> (stub, bank, None)))"


definition GetAppraiser :: "stub \<Rightarrow> string \<Rightarrow> stub \<times> Appraiser \<times> error option" where
  "GetAppraiser stub id' =
     (let bytes = GetState stub id' in
      if length bytes = 0 then
        (let appraiser = \<lparr>appraiser_ID = id', appraiser_Affiliation = APPRAISER_A,
                           appraiser_AppraiserApplications = []\<rparr>
         in (PutState stub id' (Marshal_Appraiser appraiser), appraiser, None))
      else
        (case Unmarshal_Appraiser bytes of
           (appraiser, Some err) \<Rightarrow> (stub, appraiser, Some SerializationFailure)
         | (appraiser, None) \<Rightarrow> (stub, appraiser, None)))"


definition GetSeller :: "stub \<Rightarrow> string \<Rightarrow> stub \<times> Seller \<times> error option" where
  "GetSeller stub id' =
     (let bytes = GetState stub id' in
      if length bytes = 0 then
        (let seller = \<lparr>seller_ID = id', seller_Affiliation = SELLER_A,
                        seller_SalesContracts = []\<rparr>
         in (PutState stub id' (Marshal_Seller seller), seller, None))
      else
        (case Unmarshal_Seller bytes of
           (seller, Some err) \<Rightarrow> (stub, seller, Some SerializationFailure)
         | (seller, None) \<Rightarrow> (stub, seller, None)))"


subsection \<open>Audit log\<close>

definition GetMALogHolder :: "stub \<Rightarrow> string \<Rightarrow> stub \<times> MALogHolder \<times> error option" where
  "GetMALogHolder stub id' =
     (let bytes = GetState stub id' in
      if length bytes = 0 then
        (let lh = \<lparr>MALogs = []\<rparr>
         in (PutState stub id' (Marshal_MALogHolder lh), lh, None))
      else
        (case Unmarshal_MALogHolder bytes of
           (lh, Some err) \<Rightarrow> (stub, lh, Some SerializationFailure)
         | (lh, None) \<Rightarrow> (stub, lh, None)))"

definition SaveMALogHolder :: "stub \<Rightarrow> MALogHolder \<Rightarrow> string \<Rightarrow> stub" where
  "SaveMALogHolder stub lh id' = PutState stub id' (Marshal_MALogHolder lh)"

definition GetBCLogs :: "stub \<Rightarrow> MALog list \<times> error option" where
  "GetBCLogs stub =
     (let bytes = GetState stub bcLogsKey in
      if length bytes = 0 then ([], None)
      else
        (case Unmarshal_MALogs bytes of
           (logs, Some err) \<Rightarrow> (logs, Some SerializationFailure)
         | (logs, None) \<Rightarrow> (logs, None)))"

definition SaveBCLogs :: "stub \<Rightarrow> MALog list \<Rightarrow> stub" where
  "SaveBCLogs stub logs = PutState stub bcLogsKey (Marshal_MALogs logs)"

definition GetMALogKeys :: "stub \<Rightarrow> string list \<times> error option" where
  "GetMALogKeys stub =
     (let bytes = GetState stub maLogKeysName in
      if length bytes = 0 then ([], None)
      else
        (case Unmarshal_strings bytes of
           (keys, Some err) \<Rightarrow> (keys, Some SerializationFailure)
         | (keys, None) \<Rightarrow> (keys, None)))"

definition SaveMALogKeys :: "stub \<Rightarrow> string list \<Rightarrow> stub" where
  "SaveMALogKeys stub keys = PutState stub maLogKeysName (Marshal_strings keys)"

text \<open>
  The entry \<^verbatim>\<open>AppendMALog\<close> builds. The source assigns the empty string to
  \<^verbatim>\<open>BuyerId\<close> and \<^verbatim>\<open>ReviewerId\<close>.
\<close>

definition newMALog :: "stub \<Rightarrow> string \<Rightarrow> string \<Rightarrow> string \<Rightarrow> string \<Rightarrow> MALog" where
  "newMALog stub action text status id' =
     \<lparr>log_MortgageApplicationId = id', log_BuyerId = [], log_ReviewerId = [],
      log_Status = status, log_Action = action, log_Text = text,
      log_Timestamp = nowTime stub\<rparr>"

definition AppendMALog ::
  "stub \<Rightarrow> string \<Rightarrow> string \<Rightarrow> string \<Rightarrow> string \<Rightarrow> stub \<times> error option" where
  "AppendMALog stub action text status id' =
     (let key = fst (GetStateKey id' MALOG);
          (stub1, lh, err0) = GetMALogHolder stub key;
          log = newMALog stub action text status id';
          lh' = lh\<lparr>MALogs := MALogs lh @ [log]\<rparr>;
          stub2 = SaveMALogHolder stub1 lh' key
      in case GetMALogKeys stub2 of
           (keys, Some err) \<Rightarrow> (stub2, Some err)
         | (keys, None) \<Rightarrow>
             (let stub3 = SaveMALogKeys stub2 (keys @ [key])
              in case GetBCLogs stub3 of
                   (bcLogs, Some err) \<Rightarrow> (stub3, Some err)
                 | (bcLogs, None) \<Rightarrow> (SaveBCLogs stub3 (bcLogs @ [log]), None)))"


subsection \<open>\<^verbatim>\<open>strings.TrimSpace\<close>\<close>

text \<open>The ASCII white space; the Unicode spaces beyond it are not modelled.\<close>

definition is_space :: "char \<Rightarrow> bool" where
  "is_space c = (c = CHR '' '' \<or> c = CHR 0x09 \<or> c = CHR 0x0A \<or> c = CHR 0x0B \<or> c = CHR 0x0C
     \<or> c = CHR 0x0D)"

definition TrimSpace :: "string \<Rightarrow> string" where
  "TrimSpace s = rev (dropWhile is_space (rev (dropWhile is_space s)))"

subsection \<open>Mortgage applications\<close>

definition SaveMortgageApplication ::
  "stub \<Rightarrow> MortgageApplication \<Rightarrow> string \<Rightarrow> stub \<times> string" where
  "SaveMortgageApplication stub ma id' =
     (let bytes = Marshal_MortgageApplication ma;
          maKey = fst (GetStateKey id' MORTGAGEAPPLICATION)
      in (PutState stub maKey bytes, bytes))"


definition GetMortgageApplication ::
  "stub \<Rightarrow> string \<Rightarrow> goint \<Rightarrow> string list \<Rightarrow> MortgageApplication \<times> string \<times> error option" where
  "GetMortgageApplication stub callerId callerAffiliation args =
     (case args of
        [] \<Rightarrow> (zero_MortgageApplication, [], Some InvalidInput)
      | maId # _ \<Rightarrow>
          (let maKey = fst (GetStateKey maId MORTGAGEAPPLICATION);
               bytes = GetState stub maKey
           in case Unmarshal_MortgageApplication bytes of
                (ma, Some err) \<Rightarrow> (ma, [], Some err)
              | (ma, None) \<Rightarrow>
                  if callerId = ma_BuyerId ma \<or> callerId = ma_ReviewerId ma
                     \<or> callerAffiliation = AUDITOR_A
                  then (ma, bytes, None)
                  else (ma, [], Some Forbidden)))"

definition UpdateMortgageApplication ::
  "stub \<Rightarrow> string \<Rightarrow> goint \<Rightarrow> string list \<Rightarrow> stub \<times> string \<times> error option" where
  "UpdateMortgageApplication stub callerId callerAffiliation args =
     (case args of
        id' # input # _ \<Rightarrow>
          (case GetMortgageApplication stub callerId AUDITOR_A [id'] of
             (ma, _, Some err) \<Rightarrow> (stub, [], Some err)
           | (ma, _, None) \<Rightarrow>
               (case Unmarshal_MAUpdateSchema input of
                  (updates, Some err) \<Rightarrow> (stub, [], Some err)
                | (updates, None) \<Rightarrow>
                    if callerId = ma_ReviewerId ma then
                      (let status = TrimSpace (mau_Status updates);
                           statusChanged = (0 < length status);
                           currentStatus = (if statusChanged then ma_Status ma else []);
                           ma1 = (if statusChanged then ma\<lparr>ma_Status := status\<rparr> else ma);
                           msg1 = (if statusChanged
                                   then callerId @ '' changed status from '' @ currentStatus
                                        @ '' to '' @ status
                                   else []);
                           salesContractId = TrimSpace (mau_SalesContractId updates);
                           scIdChanged = (0 < length salesContractId);
                           ma2 = (if scIdChanged then ma1\<lparr>ma_SalesContractId := salesContractId\<rparr>
                                  else ma1);
                           msg2 = (if scIdChanged then
                                     (if statusChanged
                                      then msg1 @ ''and updated sales contract Id to ''
                                           @ salesContractId @ ''.''
                                      else msg1 @ callerId @ '' updated sales contract Id to ''
                                           @ salesContractId @ ''.'')
                                   else msg1);
                           approvedAmount = mau_ApprovedAmount updates;
                           amChanged = (approvedAmount \<noteq> 0);
                           ma3 = (if amChanged then ma2\<lparr>ma_ApprovedAmount := approvedAmount\<rparr>
                                  else ma2);
                           msg3 = (if amChanged then
                                     (if statusChanged \<or> scIdChanged
                                      then msg2 @ ''and updated approved amount to ''
                                           @ Itoa approvedAmount @ ''.''
                                      else msg2 @ callerId @ '' updated approved amount to ''
                                           @ Itoa approvedAmount @ ''.'')
                                   else msg2)
                       in if statusChanged \<or> scIdChanged \<or> amChanged then
                            (let (stub1, bytes) = SaveMortgageApplication stub ma3 id';
                                 (stub2, err1) = AppendMALog stub1 ''UpdateMortgageApplication''
                                     msg3 (ma_Status ma3) id'
                             in (stub2, bytes, None))
                          else (stub, [], None))
                    else if callerAffiliation = APPRAISER_A then
                      (let fairMarketValue = mau_FairMarketValue updates
                       in if fairMarketValue \<noteq> 0 then
                            (let ma1 = ma\<lparr>ma_FairMarketValue := fairMarketValue\<rparr>;
                                 (stub1, bytes) = SaveMortgageApplication stub ma1 id';
                                 (stub2, err1) = AppendMALog stub1 ''UpdateMortgageApplication''
                                     [] (ma_Status ma1) id'
                             in (stub2, bytes, None))
                          else (stub, [], None))
                    else (stub, [], Some Forbidden)))
      | _ \<Rightarrow> (stub, [], Some InvalidInput))"

subsection \<open>Appraiser applications\<close>





subsection \<open>Sales contracts\<close>



definition GetSalesContract ::
  "stub \<Rightarrow> string \<Rightarrow> goint \<Rightarrow> string list \<Rightarrow> SalesContract \<times> string \<times> error option" where
  "GetSalesContract stub callerId callerAffiliation args =
     (case args of
        [] \<Rightarrow> (zero_SalesContract, [], Some InvalidInput)
      | maId # _ \<Rightarrow>
          (let maKey = fst (GetStateKey maId SALESCONTRACT);
               bytes = GetState stub maKey
           in case Unmarshal_SalesContract bytes of
                (ma, Some err) \<Rightarrow> (ma, [], Some err)
              | (ma, None) \<Rightarrow>
                  if callerId = sc_SellerId ma \<or> callerId = sc_BuyerId ma
                     \<or> callerAffiliation = AUDITOR_A \<or> callerAffiliation = BANK_A
                  then (ma, bytes, None)
                  else (ma, [], Some Forbidden)))"


subsection \<open>Auxiliary notions for the proofs about the JSON text\<close>

text \<open>
  What may follow a value in the text the writer produces, the characters a value
  starts with, and the fuel the reader needs for a tree.
\<close>

definition follow :: "string \<Rightarrow> bool" where
  "follow rest = (rest = [] \<or> hd rest \<in> {CHR '','', CHR '']'', CHR ''}''})"

fun fuel_v :: "json \<Rightarrow> nat"
  and fuel_es :: "json list \<Rightarrow> nat"
  and fuel_ms :: "(string \<times> json) list \<Rightarrow> nat" where
  "fuel_v (JArr vs) = Suc (fuel_es vs)"
| "fuel_v (JObj kvs) = Suc (fuel_ms kvs)"
| "fuel_v JNull = 1"
| "fuel_v (JBool b) = 1"
| "fuel_v (JNum n) = 1"
| "fuel_v (JStr s) = 1"
| "fuel_es [] = 0"
| "fuel_es (v # vs) = Suc (max (fuel_v v) (fuel_es vs))"
| "fuel_ms [] = 0"
| "fuel_ms (kv # kvs) = Suc (max (fuel_v (snd kv)) (fuel_ms kvs))"

definition value_start :: "char \<Rightarrow> bool" where
  "value_start c = (c = quote \<or> c = CHR ''['' \<or> c = CHR ''{'' \<or> c = CHR ''n'' \<or> c = CHR ''t''
     \<or> c = CHR ''f'' \<or> c = CHR ''-'' \<or> is_digit c)"

subsection \<open>Reading the ledger\<close>

text \<open>
  What the ledger holds, decoded: the document stored under an id, the log of a document
  and the log of the whole chain. A key that is absent or holds bytes that do not decode
  reads as the zero value, which is also how \<^verbatim>\<open>GetMALogHolder\<close> goes on after an
  error.
\<close>

definition stored_MortgageApplication :: "stub \<Rightarrow> string \<Rightarrow> MortgageApplication" where
  "stored_MortgageApplication stub i =
     fst (Unmarshal_MortgageApplication (GetState stub (typeMortgageApplication @ i)))"

definition stored_AppraiserApplication :: "stub \<Rightarrow> string \<Rightarrow> AppraiserApplication" where
  "stored_AppraiserApplication stub i =
     fst (Unmarshal_AppraiserApplication (GetState stub (typeAppraiserApplication @ i)))"


definition document_log :: "stub \<Rightarrow> string \<Rightarrow> MALog list" where
  "document_log stub i = MALogs (fst (Unmarshal_MALogHolder (GetState stub (typeMALog @ i))))"

definition global_log :: "stub \<Rightarrow> MALog list" where
  "global_log stub = fst (Unmarshal_MALogs (GetState stub bcLogsKey))"

subsection \<open>A sample ledger\<close>

text \<open>Concrete documents and callers on which the closed theorems below run the code.\<close>

definition ex_stub :: stub where
  "ex_stub = \<lparr>state = Map.empty, nowTime = ''2016-11-01 10:00:00''\<rparr>"

definition ex_ma_body :: string where
  \<open>ex_ma_body =
     ''{"id":"m1","buyerId":"alice","reviewerId":"bank1","status":"Submitted","fairMarketValue":700,"approvedAmount":500}''\<close>

definition ex_ma :: MortgageApplication where
  "ex_ma = zero_MortgageApplication\<lparr>ma_ID := ''m1'', ma_BuyerId := ''alice'',
     ma_ReviewerId := ''bank1'', ma_Status := ''Submitted'', ma_FairMarketValue := 700,
     ma_ApprovedAmount := 500\<rparr>"

definition ex_sc_body :: string where
  \<open>ex_sc_body = ''{"id":"c1","buyerId":"alice","sellerId":"sam","reviewerId":"bank1","price":900}''\<close>

definition ex_sc :: SalesContract where
  "ex_sc = zero_SalesContract\<lparr>sc_ID := ''c1'', sc_BuyerId := ''alice'', sc_SellerId := ''sam'',
     sc_ReviewerId := ''bank1'', sc_Price := 900\<rparr>"

definition ex_aa_body :: string where
  \<open>ex_aa_body = ''{"id":"a1","mortgageApplicationId":"m1","appraiserId":"app1","reviewerId":"bank1"}''\<close>


text \<open>The ledger holding the three documents under their keys.\<close>

definition ex_ledger :: stub where
  "ex_ledger = PutState (PutState (PutState ex_stub ''ma:m1'' ex_ma_body) ''sc:c1'' ex_sc_body)
     ''aa:a1'' ex_aa_body"







section \<open>The JSON writer and reader\<close>

lemma digit_cases:
  "0 \<le> d \<Longrightarrow> d < 10 \<Longrightarrow>
   d = 0 \<or> d = 1 \<or> d = 2 \<or> d = 3 \<or> d = 4 \<or> d = 5 \<or> d = 6 \<or> d = 7 \<or> d = 8 \<or> d = (9::int)"
  by arith

lemma digit_char_is_digit: "0 \<le> d \<Longrightarrow> d < 10 \<Longrightarrow> is_digit (digit_char d)"
  using digit_cases [of d] by (auto simp: is_digit_def digit_char_def)

lemma digit_val_digit_char: "0 \<le> d \<Longrightarrow> d < 10 \<Longrightarrow> digit_val (digit_char d) = d"
  using digit_cases [of d] by (auto simp: digit_val_def digit_char_def)

lemma digits_all_digit: "0 \<le> n \<Longrightarrow> \<forall>c \<in> set (digits n). is_digit c"
proof (induction n rule: digits.induct)
  case (1 n)
  show ?case
  proof (cases "n < 10")
    case True
    then show ?thesis using "1.prems"
      by (subst digits.simps) (simp add: digit_char_is_digit)
  next
    case False
    with 1 show ?thesis by (subst digits.simps) (simp add: digit_char_is_digit)
  qed
qed

lemma digits_nonempty: "digits n \<noteq> []"
  by (subst digits.simps) simp

lemma int_of_digits_snoc: "int_of_digits (ds @ [c]) = 10 * int_of_digits ds + digit_val c"
  by (simp add: int_of_digits_def)

lemma int_of_digits_digits: "0 \<le> n \<Longrightarrow> int_of_digits (digits n) = n"
proof (induction n rule: digits.induct)
  case (1 n)
  show ?case
  proof (cases "n < 10")
    case True
    then show ?thesis using "1.prems"
      by (subst digits.simps) (simp add: int_of_digits_def digit_val_digit_char)
  next
    case False
    then have "int_of_digits (digits (n div 10)) = n div 10"
      using 1 by simp
    then show ?thesis using False
      by (subst digits.simps) (simp add: int_of_digits_snoc digit_val_digit_char)
  qed
qed

lemma digits_hd_zero: "0 \<le> n \<Longrightarrow> hd (digits n) = CHR ''0'' \<Longrightarrow> n < 10"
proof (induction n rule: digits.induct)
  case (1 n)
  show ?case
  proof (rule ccontr)
    assume nlt: "\<not> n < 10"
    then have eq: "digits n = digits (n div 10) @ [digit_char (n mod 10)]"
      by (subst digits.simps) simp
    with "1.prems" have h: "hd (digits (n div 10)) = CHR ''0''"
      by (simp add: digits_nonempty)
    with 1 nlt have lt: "n div 10 < 10" by simp
    then have "digits (n div 10) = [digit_char (n div 10)]"
      by (subst digits.simps) simp
    with h have "digit_char (n div 10) = CHR ''0''" by simp
    then have "digit_val (digit_char (n div 10)) = 0" by (simp add: digit_val_def)
    moreover have "0 \<le> n div 10" using "1.prems" by simp
    ultimately have "n div 10 = 0" using lt by (simp add: digit_val_digit_char)
    with nlt show False by simp
  qed
qed

lemma digits_length_one: "n < 10 \<Longrightarrow> length (digits n) = 1"
  by (subst digits.simps) simp

lemma follow_not_digit: "follow rest \<Longrightarrow> rest \<noteq> [] \<Longrightarrow> \<not> is_digit (hd rest)"
  by (auto simp: follow_def is_digit_def)

lemma takeWhile_digits:
  "0 \<le> n \<Longrightarrow> follow rest \<Longrightarrow> takeWhile is_digit (digits n @ rest) = digits n"
  using digits_all_digit [of n] follow_not_digit [of rest]
  by (cases rest) (auto simp: takeWhile_append2 takeWhile_eq_all_conv dest: bspec)

lemma dropWhile_digits:
  "0 \<le> n \<Longrightarrow> follow rest \<Longrightarrow> dropWhile is_digit (digits n @ rest) = rest"
  using digits_all_digit [of n] follow_not_digit [of rest]
  by (cases rest) (auto simp: dropWhile_append2)

lemma hd_digits_not_minus: "0 \<le> n \<Longrightarrow> hd (digits n) \<noteq> CHR ''-''"
  using digits_all_digit [of n] digits_nonempty [of n]
  by (cases "digits n") (auto simp: is_digit_def)

lemma parse_number_Itoa:
  assumes "follow rest"
  shows "parse_number (Itoa_int n @ rest) = Some (JNum n, rest)"
proof -
  have lead: "0 \<le> m \<Longrightarrow> \<not> (1 < length (digits m) \<and> hd (digits m) = CHR ''0'')" for m
    using digits_hd_zero [of m] digits_length_one [of m] by auto
  have fol: "\<not> (rest \<noteq> [] \<and> hd rest \<in> {CHR ''.'', CHR ''e'', CHR ''E''})"
    using assms by (auto simp: follow_def)
  show ?thesis
  proof (cases "n < 0")
    case True
    then show ?thesis
      using lead [of "- n"] fol assms
      by (simp add: parse_number_def Itoa_int_def Let_def takeWhile_digits dropWhile_digits
          digits_nonempty int_of_digits_digits)
  next
    case False
    then show ?thesis
      using lead [of n] fol assms hd_digits_not_minus [of n]
      by (simp add: parse_number_def Itoa_int_def Let_def takeWhile_digits dropWhile_digits
          digits_nonempty int_of_digits_digits)
  qed
qed

lemma unescape_simps:
  "unescape quote = Some quote" "unescape backslash = Some backslash"
  by (simp_all add: unescape_def quote_def backslash_def)

lemma backslash_neq_quote: "backslash \<noteq> quote"
  by (simp add: quote_def backslash_def)

lemma parse_chars_escape:
  "parse_chars (concat (map escape s) @ quote # rest) = Some (s, rest)"
proof (induction s)
  case Nil
  show ?case by (cases rest) simp_all
next
  case (Cons c s)
  let ?X = "concat (map escape s) @ quote # rest"
  obtain e r where er: "?X = e # r"
    by (cases ?X) auto
  consider "c = quote" | "c = backslash" | "c \<noteq> quote" "c \<noteq> backslash" by blast
  then show ?case
  proof cases
    case 1
    have "parse_chars (backslash # quote # ?X) = Some (quote # s, rest)"
      using Cons by (simp add: backslash_neq_quote unescape_simps)
    moreover have "escape c = [backslash, quote]" using 1 by (simp add: escape_def)
    ultimately show ?thesis using 1 by simp
  next
    case 2
    have "parse_chars (backslash # backslash # ?X) = Some (backslash # s, rest)"
      using Cons by (simp add: backslash_neq_quote unescape_simps)
    moreover have "escape c = [backslash, backslash]"
      using 2 by (simp add: escape_def backslash_neq_quote)
    ultimately show ?thesis using 2 by simp
  next
    case 3
    have "parse_chars (c # e # r) = Some (c # s, rest)"
      using Cons 3 er by simp
    moreover have "escape c = [c]" using 3 by (simp add: escape_def)
    ultimately show ?thesis using er by simp
  qed
qed

lemma parse_chars_render_string:
  "parse_chars (tl (render_string s) @ rest) = Some (s, rest)"
  by (simp add: render_string_def parse_chars_escape)

lemma hd_digits_is_digit: "0 \<le> n \<Longrightarrow> is_digit (hd (digits n))"
  using digits_all_digit [of n] digits_nonempty [of n] by (cases "digits n") auto

lemma render_start: "render j \<noteq> [] \<and> value_start (hd (render j))"
proof (cases j)
  case (JNum n)
  then show ?thesis
    using hd_digits_is_digit [of n] hd_digits_is_digit [of "- n"] digits_nonempty [of n] digits_nonempty [of "- n"]
    by (simp add: Itoa_int_def value_start_def)
qed (simp_all add: value_start_def render_string_def)

lemma value_start_not_ws: "value_start c \<Longrightarrow> \<not> is_ws c"
  by (auto simp: value_start_def is_ws_def quote_def is_digit_def)

lemma skip_ws_cons: "\<not> is_ws c \<Longrightarrow> skip_ws (c # cs) = c # cs"
  by (simp add: skip_ws_def)

lemma skip_ws_render: "skip_ws (render j @ rest) = render j @ rest"
  using render_start [of j] value_start_not_ws [of "hd (render j)"]
  by (cases "render j") (simp_all add: skip_ws_cons)

lemma follow_simps [simp]:
  "follow []" "follow (CHR '','' # cs)" "follow (CHR '']'' # cs)" "follow (CHR ''}'' # cs)"
  by (simp_all add: follow_def)

lemma parse_value_scalar:
  assumes "render j = c # r" "c \<noteq> quote" "c \<noteq> CHR ''[''" "c \<noteq> CHR ''{''"
  shows "parse_value (Suc n) (render j @ rest) =
     (if take 4 (c # r @ rest) = ''null'' then Some (JNull, drop 4 (c # r @ rest))
      else if take 4 (c # r @ rest) = ''true'' then Some (JBool True, drop 4 (c # r @ rest))
      else if take 5 (c # r @ rest) = ''false'' then Some (JBool False, drop 5 (c # r @ rest))
      else parse_number (c # r @ rest))"
  using assms skip_ws_render [of j rest] by simp

lemma roundtrip_mutual:
  "(\<forall>n rest. follow rest \<longrightarrow> fuel_v j \<le> n \<longrightarrow> parse_value n (render j @ rest) = Some (j, rest))"
  "(\<forall>n rest. vs \<noteq> [] \<longrightarrow> fuel_es vs \<le> n \<longrightarrow>
       parse_elems n (render_elems vs @ CHR '']'' # rest) = Some (vs, rest))"
  "(\<forall>n rest. kvs \<noteq> [] \<longrightarrow> fuel_ms kvs \<le> n \<longrightarrow>
       parse_members n (render_members kvs @ CHR ''}'' # rest) = Some (kvs, rest))"
proof (induction j and vs and kvs rule: render_render_elems_render_members.induct)
  case 1
  show ?case
  proof (intro allI impI)
    fix n rest assume "follow rest" "fuel_v JNull \<le> n"
    then obtain m where "n = Suc m" by (cases n) auto
    then show "parse_value n (render JNull @ rest) = Some (JNull, rest)"
      by (simp add: skip_ws_cons is_ws_def quote_def)
  qed
next
  case (2 b)
  show ?case
  proof (intro allI impI)
    fix n rest assume "follow rest" "fuel_v (JBool b) \<le> n"
    then obtain m where "n = Suc m" by (cases n) auto
    then show "parse_value n (render (JBool b) @ rest) = Some (JBool b, rest)"
      by (simp add: skip_ws_cons is_ws_def quote_def)
  qed
next
  case (3 i)
  show ?case
  proof (intro allI impI)
    fix n rest assume f: "follow rest" and "fuel_v (JNum i) \<le> n"
    then obtain m where n: "n = Suc m" by (cases n) auto
    obtain c r where cr: "render (JNum i) = c # r"
      using render_start [of "JNum i"] by (cases "render (JNum i)") auto
    have c: "c = CHR ''-'' \<or> is_digit c"
      using cr hd_digits_is_digit [of i] hd_digits_is_digit [of "- i"] by (auto simp: Itoa_int_def split: if_splits)
    then have ne: "c \<noteq> quote" "c \<noteq> CHR ''[''" "c \<noteq> CHR ''{''" "c \<noteq> CHR ''n''" "c \<noteq> CHR ''t''" "c \<noteq> CHR ''f''"
      by (auto simp: quote_def is_digit_def)
    have "parse_value (Suc m) (render (JNum i) @ rest) = parse_number (c # r @ rest)"
      using ne by (subst parse_value_scalar [OF cr]) simp_all
    also have "\<dots> = parse_number (Itoa_int i @ rest)" using cr by simp
    also have "\<dots> = Some (JNum i, rest)" by (rule parse_number_Itoa [OF f])
    finally show "parse_value n (render (JNum i) @ rest) = Some (JNum i, rest)" using n by simp
  qed
next
  case (4 s)
  show ?case
  proof (intro allI impI)
    fix n rest assume "follow rest" "fuel_v (JStr s) \<le> n"
    then obtain m where "n = Suc m" by (cases n) auto
    then show "parse_value n (render (JStr s) @ rest) = Some (JStr s, rest)"
      using parse_chars_escape [of s rest]
      by (simp add: render_string_def skip_ws_cons is_ws_def quote_def)
  qed
next
  case (5 vs)
  show ?case
  proof (intro allI impI)
    fix n rest assume "follow rest" and fu: "fuel_v (JArr vs) \<le> n"
    then obtain m where n: "n = Suc m" and m: "fuel_es vs \<le> m" by (cases n) auto
    have lb: "skip_ws (CHR ''['' # cs) = CHR ''['' # cs" for cs
      by (simp add: skip_ws_cons is_ws_def)
    show "parse_value n (render (JArr vs) @ rest) = Some (JArr vs, rest)"
    proof (cases vs)
      case Nil
      then show ?thesis using n by (simp add: lb skip_ws_cons is_ws_def quote_def)
    next
      case (Cons v vs')
      obtain c r where cr: "render v = c # r"
        using render_start [of v] by (cases "render v") auto
      have vc: "value_start c" using render_start [of v] cr by simp
      then have c: "\<not> is_ws c" "c \<noteq> CHR '']''"
        by (auto simp: value_start_not_ws value_start_def quote_def is_digit_def)
      have "skip_ws (render_elems vs @ CHR '']'' # rest) = render_elems vs @ CHR '']'' # rest"
        "hd (render_elems vs @ CHR '']'' # rest) = c"
        using Cons cr c by (simp_all add: skip_ws_cons)
      moreover have "parse_elems m (render_elems vs @ CHR '']'' # rest) = Some (vs, rest)"
        using 5 m Cons by simp
      ultimately show ?thesis using n c by (simp add: lb quote_def)
    qed
  qed
next
  case (6 kvs)
  show ?case
  proof (intro allI impI)
    fix n rest assume "follow rest" and fu: "fuel_v (JObj kvs) \<le> n"
    then obtain m where n: "n = Suc m" and m: "fuel_ms kvs \<le> m" by (cases n) auto
    have lb: "skip_ws (CHR ''{'' # cs) = CHR ''{'' # cs" for cs
      by (simp add: skip_ws_cons is_ws_def)
    show "parse_value n (render (JObj kvs) @ rest) = Some (JObj kvs, rest)"
    proof (cases kvs)
      case Nil
      then show ?thesis using n by (simp add: lb skip_ws_cons is_ws_def quote_def)
    next
      case (Cons kv kvs')
      have "skip_ws (render_members kvs @ CHR ''}'' # rest) = render_members kvs @ CHR ''}'' # rest"
        "hd (render_members kvs @ CHR ''}'' # rest) = quote"
        using Cons by (simp_all add: skip_ws_cons render_string_def is_ws_def quote_def)
      moreover have "parse_members m (render_members kvs @ CHR ''}'' # rest) = Some (kvs, rest)"
        using 6 m Cons by simp
      ultimately show ?thesis using n by (simp add: lb quote_def)
    qed
  qed
next
  case 7
  show ?case by simp
next
  case (8 v vs)
  show ?case
  proof (intro allI impI)
    fix n rest assume fu: "fuel_es (v # vs) \<le> n"
    then obtain m where n: "n = Suc m" and mv: "fuel_v v \<le> m" and ms: "fuel_es vs \<le> m"
      by (cases n) auto
    show "parse_elems n (render_elems (v # vs) @ CHR '']'' # rest) = Some (v # vs, rest)"
    proof (cases "vs = []")
      case True
      have "parse_value m (render v @ CHR '']'' # rest) = Some (v, CHR '']'' # rest)"
        using 8(1) mv by simp
      then show ?thesis using True n by (simp add: skip_ws_cons is_ws_def)
    next
      case False
      have "parse_value m (render v @ CHR '','' # render_elems vs @ CHR '']'' # rest)
          = Some (v, CHR '','' # render_elems vs @ CHR '']'' # rest)"
        using 8(1) mv by simp
      moreover have "parse_elems m (render_elems vs @ CHR '']'' # rest) = Some (vs, rest)"
        using 8(2) False ms by simp
      ultimately show ?thesis using False n by (simp add: skip_ws_cons is_ws_def)
    qed
  qed
next
  case 9
  show ?case by simp
next
  case (10 kv kvs)
  show ?case
  proof (intro allI impI)
    fix n rest assume fu: "fuel_ms (kv # kvs) \<le> n"
    then obtain m where n: "n = Suc m" and mv: "fuel_v (snd kv) \<le> m" and ms: "fuel_ms kvs \<le> m"
      by (cases n) auto
    have key: "skip_ws (render_string (fst kv) @ cs) = render_string (fst kv) @ cs" for cs
      by (simp add: render_string_def skip_ws_cons is_ws_def quote_def)
    have pk: "parse_chars (concat (map escape (fst kv)) @ quote # cs) = Some (fst kv, cs)" for cs
      by (rule parse_chars_escape)
    have sq: "skip_ws (quote # cs) = quote # cs" for cs
      by (simp add: skip_ws_cons is_ws_def quote_def)
    show "parse_members n (render_members (kv # kvs) @ CHR ''}'' # rest) = Some (kv # kvs, rest)"
    proof (cases "kvs = []")
      case True
      have "parse_value m (render (snd kv) @ CHR ''}'' # rest) = Some (snd kv, CHR ''}'' # rest)"
        using 10(1) mv by simp
      then show ?thesis using True n pk
        by (simp add: render_string_def sq skip_ws_cons is_ws_def)
    next
      case False
      have "parse_value m (render (snd kv) @ CHR '','' # render_members kvs @ CHR ''}'' # rest)
          = Some (snd kv, CHR '','' # render_members kvs @ CHR ''}'' # rest)"
        using 10(1) mv by simp
      moreover have "parse_members m (render_members kvs @ CHR ''}'' # rest) = Some (kvs, rest)"
        using 10(2) False ms by simp
      ultimately show ?thesis using False n pk
        by (simp add: render_string_def sq skip_ws_cons is_ws_def)
    qed
  qed
qed

lemma fuel_bound:
  "fuel_v j \<le> 2 * length (render j)"
  "fuel_es vs \<le> 2 * length (render_elems vs) + 1"
  "fuel_ms kvs \<le> 2 * length (render_members kvs) + 1"
proof (induction j and vs and kvs rule: render_render_elems_render_members.induct)
  case (3 n)
  show ?case using render_start [of "JNum n"] by (cases "render (JNum n)") auto
next
  case (4 s)
  show ?case by (simp add: render_string_def)
qed auto

theorem parse_json_render: "parse_json (render j) = Some j"
proof -
  have "fuel_v j \<le> 2 * length (render j) + 2"
    using fuel_bound(1) [of j] by simp
  then have "parse_value (2 * length (render j) + 2) (render j @ []) = Some (j, [])"
    using roundtrip_mutual(1) [of j] by (simp del: parse_value.simps append_Nil2)
  then show ?thesis by (simp add: parse_json_def skip_ws_def)
qed

lemma render_nonempty: "render j \<noteq> []"
  using render_start [of j] by simp

lemma unmarshal_render:
  "dec j = (x, False) \<Longrightarrow> unmarshal dec z (render j) = (x, None)"
  by (simp add: unmarshal_def parse_json_render)

lemma lower_keys:
  "lowercase ''id'' = ''id''"
  "lowercase ''affiliation'' = ''affiliation''"
  "lowercase ''mortgageApplications'' = ''mortgageapplications''"
  "lowercase ''salesContracts'' = ''salescontracts''"
  "lowercase ''appraiserApplications'' = ''appraiserapplications''"
  "lowercase ''propertyId'' = ''propertyid''"
  "lowercase ''landId'' = ''landid''"
  "lowercase ''permitId'' = ''permitid''"
  "lowercase ''buyerId'' = ''buyerid''"
  "lowercase ''sellerId'' = ''sellerid''"
  "lowercase ''reviewerId'' = ''reviewerid''"
  "lowercase ''appraiserId'' = ''appraiserid''"
  "lowercase ''appraiserApplicationId'' = ''appraiserapplicationid''"
  "lowercase ''mortgageApplicationId'' = ''mortgageapplicationid''"
  "lowercase ''salesContractId'' = ''salescontractid''"
  "lowercase ''personalInfo'' = ''personalinfo''"
  "lowercase ''financialInfo'' = ''financialinfo''"
  "lowercase ''status'' = ''status''"
  "lowercase ''requestedAmount'' = ''requestedamount''"
  "lowercase ''fairMarketValue'' = ''fairmarketvalue''"
  "lowercase ''approvedAmount'' = ''approvedamount''"
  "lowercase ''lastModifiedDate'' = ''lastmodifieddate''"
  "lowercase ''buyerSignature'' = ''buyersignature''"
  "lowercase ''sellerSignature'' = ''sellersignature''"
  "lowercase ''price'' = ''price''"
  "lowercase ''firstname'' = ''firstname''"
  "lowercase ''lastname'' = ''lastname''"
  "lowercase ''dob'' = ''dob''"
  "lowercase ''phone'' = ''phone''"
  "lowercase ''mobile'' = ''mobile''"
  "lowercase ''email'' = ''email''"
  "lowercase ''monthlySalary'' = ''monthlysalary''"
  "lowercase ''otherIncome'' = ''otherincome''"
  "lowercase ''otherExpenditure'' = ''otherexpenditure''"
  "lowercase ''monthlyRent'' = ''monthlyrent''"
  "lowercase ''monthlyLoanPayment'' = ''monthlyloanpayment''"
  "lowercase ''action'' = ''action''"
  "lowercase ''text'' = ''text''"
  "lowercase ''timestamp'' = ''timestamp''"
  "lowercase ''MALogs'' = ''malogs''"
  by code_simp+

lemma fold_keys_Cons: "fold_keys ((k, v) # kvs) = (lowercase k, v) # fold_keys kvs"
  by (simp add: fold_keys_def)

lemma fold_keys_Nil: "fold_keys [] = []"
  by (simp add: fold_keys_def)

lemma vals_Cons: "vals k ((k', v) # ms) = (if k' = lowercase k then v # vals k ms else vals k ms)"
  by (simp add: vals_def)

lemma vals_Nil: "vals k [] = []"
  by (simp add: vals_def)

lemma set_int_JInt: "set_int (i, e) (JInt w) = (w, e)"
proof -
  have "- (2 ^ 63) \<le> sint w" "sint w < 2 ^ 63"
    using sint_ge [of w] sint_lt [of w] by simp_all
  then show ?thesis by (simp add: set_int_def JInt_def)
qed

lemma set_string_JStr: "set_string (i, e) (JStr s) = (s, e)"
  by (simp add: set_string_def)

lemma set_strings_JStrs: "set_strings (i, e) (JStrs xs) = (xs, e)"
  by (simp add: set_strings_def JStrs_def elem_string_def comp_def list_ex_iff)

lemmas field_simps = fold_keys_Cons fold_keys_Nil vals_Cons vals_Nil set_int_JInt
  set_string_JStr set_strings_JStrs string_field_def int_field_def strings_field_def
  lower_keys Let_def

lemma dec_enc_strings: "dec_strings (JStrs xs) = (xs, False)"
  by (simp add: dec_strings_def set_strings_JStrs)

lemma dec_enc_Buyer: "dec_Buyer (enc_Buyer x) = (x, False)"
  by (simp add: dec_Buyer_def set_Buyer_def enc_Buyer_def zero_Buyer_def field_simps)

lemma dec_enc_Seller: "dec_Seller (enc_Seller x) = (x, False)"
  by (simp add: dec_Seller_def set_Seller_def enc_Seller_def zero_Seller_def field_simps)

lemma dec_enc_Bank: "dec_Bank (enc_Bank x) = (x, False)"
  by (simp add: dec_Bank_def set_Bank_def enc_Bank_def zero_Bank_def field_simps)

lemma dec_enc_Appraiser: "dec_Appraiser (enc_Appraiser x) = (x, False)"
  by (simp add: dec_Appraiser_def set_Appraiser_def enc_Appraiser_def zero_Appraiser_def field_simps)

lemma dec_enc_SalesContract: "dec_SalesContract (enc_SalesContract x) = (x, False)"
  by (simp add: dec_SalesContract_def set_SalesContract_def enc_SalesContract_def
      zero_SalesContract_def field_simps)

lemma dec_enc_AppraiserApplication:
  "dec_AppraiserApplication (enc_AppraiserApplication x) = (x, False)"
  by (simp add: dec_AppraiserApplication_def set_AppraiserApplication_def
      enc_AppraiserApplication_def zero_AppraiserApplication_def field_simps)

lemma set_enc_PersonalInfo: "set_PersonalInfo (i, e) (enc_PersonalInfo x) = (x, e)"
  by (simp add: set_PersonalInfo_def enc_PersonalInfo_def field_simps)

lemma set_enc_FinancialInfo: "set_FinancialInfo (i, e) (enc_FinancialInfo x) = (x, e)"
  by (simp add: set_FinancialInfo_def enc_FinancialInfo_def field_simps)

lemma dec_enc_MortgageApplication:
  "dec_MortgageApplication (enc_MortgageApplication x) = (x, False)"
  by (simp add: dec_MortgageApplication_def set_MortgageApplication_def
      zero_MortgageApplication_def enc_MortgageApplication_def personal_field_def financial_field_def set_enc_PersonalInfo set_enc_FinancialInfo field_simps)

lemma dec_enc_MALog: "dec_MALog (enc_MALog x) = (x, False)"
  by (simp add: dec_MALog_def set_MALog_def enc_MALog_def zero_MALog_def field_simps)

lemma set_MALogs_enc: "set_MALogs (i, e) (JArr (map enc_MALog logs)) = (logs, e)"
  by (simp add: set_MALogs_def dec_enc_MALog comp_def list_ex_iff Let_def map_idI)

lemma dec_enc_MALogHolder: "dec_MALogHolder (enc_MALogHolder lh) = (lh, False)"
  by (simp add: dec_MALogHolder_def enc_MALogHolder_def set_MALogs_enc field_simps)

lemma Unmarshal_Marshal_strings [simp]: "Unmarshal_strings (Marshal_strings xs) = (xs, None)"
  by (simp add: Unmarshal_strings_def Marshal_strings_def unmarshal_render dec_enc_strings)

lemma Unmarshal_Marshal_Buyer [simp]: "Unmarshal_Buyer (Marshal_Buyer x) = (x, None)"
  by (simp add: Unmarshal_Buyer_def Marshal_Buyer_def unmarshal_render dec_enc_Buyer)

lemma Unmarshal_Marshal_Seller [simp]: "Unmarshal_Seller (Marshal_Seller x) = (x, None)"
  by (simp add: Unmarshal_Seller_def Marshal_Seller_def unmarshal_render dec_enc_Seller)

lemma Unmarshal_Marshal_Bank [simp]: "Unmarshal_Bank (Marshal_Bank x) = (x, None)"
  by (simp add: Unmarshal_Bank_def Marshal_Bank_def unmarshal_render dec_enc_Bank)

lemma Unmarshal_Marshal_Appraiser [simp]: "Unmarshal_Appraiser (Marshal_Appraiser x) = (x, None)"
  by (simp add: Unmarshal_Appraiser_def Marshal_Appraiser_def unmarshal_render dec_enc_Appraiser)

lemma Unmarshal_Marshal_SalesContract [simp]:
  "Unmarshal_SalesContract (Marshal_SalesContract x) = (x, None)"
  by (simp add: Unmarshal_SalesContract_def Marshal_SalesContract_def unmarshal_render
      dec_enc_SalesContract)

lemma Unmarshal_Marshal_AppraiserApplication [simp]:
  "Unmarshal_AppraiserApplication (Marshal_AppraiserApplication x) = (x, None)"
  by (simp add: Unmarshal_AppraiserApplication_def Marshal_AppraiserApplication_def
      unmarshal_render dec_enc_AppraiserApplication)

lemma Unmarshal_Marshal_MortgageApplication [simp]:
  "Unmarshal_MortgageApplication (Marshal_MortgageApplication x) = (x, None)"
  by (simp add: Unmarshal_MortgageApplication_def Marshal_MortgageApplication_def
      unmarshal_render dec_enc_MortgageApplication)

lemma Unmarshal_Marshal_MALogs [simp]: "Unmarshal_MALogs (Marshal_MALogs logs) = (logs, None)"
  unfolding Unmarshal_MALogs_def Marshal_MALogs_def
  by (rule unmarshal_render) (simp add: dec_MALogs_def set_MALogs_enc)

lemma Unmarshal_Marshal_MALogHolder [simp]:
  "Unmarshal_MALogHolder (Marshal_MALogHolder lh) = (lh, None)"
  unfolding Unmarshal_MALogHolder_def Marshal_MALogHolder_def
  by (rule unmarshal_render) (rule dec_enc_MALogHolder)

lemma Marshal_nonempty [simp]:
  "Marshal_strings xs \<noteq> []" "Marshal_Buyer b \<noteq> []" "Marshal_Seller s \<noteq> []"
  "Marshal_Bank k \<noteq> []" "Marshal_Appraiser a \<noteq> []" "Marshal_SalesContract sc \<noteq> []"
  "Marshal_AppraiserApplication aa \<noteq> []" "Marshal_MortgageApplication ma \<noteq> []"
  "Marshal_MALogs logs \<noteq> []" "Marshal_MALogHolder lh \<noteq> []"
  by (simp_all add: Marshal_strings_def Marshal_Buyer_def Marshal_Seller_def Marshal_Bank_def
      Marshal_Appraiser_def Marshal_SalesContract_def Marshal_AppraiserApplication_def
      Marshal_MortgageApplication_def Marshal_MALogs_def Marshal_MALogHolder_def render_nonempty)

section \<open>The ledger, the key lists and the logs\<close>

lemma GetState_PutState [simp]:
  "GetState (PutState s k v) k' = (if k' = k then v else GetState s k')"
  by (simp add: GetState_def PutState_def)

lemma nowTime_PutState [simp]: "nowTime (PutState s k v) = nowTime s"
  by (simp add: PutState_def)

lemmas kind_defs = BUYER_def SELLER_def BANK_def APPRAISER_def AUDITOR_def USER_def LAND_def
  PROPERTY_def PROPERTYAD_def MORTGAGEAPPLICATION_def SALESCONTRACT_def
  APPRAISERAPPLICATION_def MALOG_def

lemmas prefix_defs = typeLand_def typeMortgageApplication_def typeSalesContract_def
  typeAppraiserApplication_def typeProperty_def typePropertyAd_def typeBuyer_def
  typeSeller_def typeBank_def typeAppraiser_def typeUser_def typeAuditor_def typeMALog_def

lemmas name_defs = maKeysName_def scKeysName_def aaKeysName_def maLogKeysName_def bcLogsKey_def

lemma GetStateKey_simps [simp]:
  "GetStateKey i MORTGAGEAPPLICATION = (typeMortgageApplication @ i, None)"
  "GetStateKey i SALESCONTRACT = (typeSalesContract @ i, None)"
  "GetStateKey i APPRAISERAPPLICATION = (typeAppraiserApplication @ i, None)"
  "GetStateKey i USER = (typeUser @ i, None)"
  "GetStateKey i MALOG = (typeMALog @ i, None)"
  by (simp_all add: GetStateKey_def kind_defs)

text \<open>The keys the operations write are pairwise distinct unless kind and id agree.\<close>

lemma key_neq [simp]:
  "typeMortgageApplication \<noteq> typeSalesContract"
  "typeMortgageApplication \<noteq> typeAppraiserApplication"
  "typeMortgageApplication \<noteq> typeUser"
  "typeMortgageApplication \<noteq> typeMALog"
  "typeSalesContract \<noteq> typeMortgageApplication"
  "typeSalesContract \<noteq> typeAppraiserApplication"
  "typeSalesContract \<noteq> typeUser"
  "typeSalesContract \<noteq> typeMALog"
  "typeAppraiserApplication \<noteq> typeMortgageApplication"
  "typeAppraiserApplication \<noteq> typeSalesContract"
  "typeAppraiserApplication \<noteq> typeUser"
  "typeAppraiserApplication \<noteq> typeMALog"
  "typeUser \<noteq> typeMortgageApplication"
  "typeUser \<noteq> typeSalesContract"
  "typeUser \<noteq> typeAppraiserApplication"
  "typeUser \<noteq> typeMALog"
  "typeMALog \<noteq> typeMortgageApplication"
  "typeMALog \<noteq> typeSalesContract"
  "typeMALog \<noteq> typeAppraiserApplication"
  "typeMALog \<noteq> typeUser"
  "typeMortgageApplication @ i \<noteq> typeSalesContract @ j"
  "typeMortgageApplication @ i \<noteq> typeAppraiserApplication @ j"
  "typeMortgageApplication @ i \<noteq> typeUser @ j"
  "typeMortgageApplication @ i \<noteq> typeMALog @ j"
  "typeSalesContract @ i \<noteq> typeMortgageApplication @ j"
  "typeSalesContract @ i \<noteq> typeAppraiserApplication @ j"
  "typeSalesContract @ i \<noteq> typeUser @ j"
  "typeSalesContract @ i \<noteq> typeMALog @ j"
  "typeAppraiserApplication @ i \<noteq> typeMortgageApplication @ j"
  "typeAppraiserApplication @ i \<noteq> typeSalesContract @ j"
  "typeAppraiserApplication @ i \<noteq> typeUser @ j"
  "typeAppraiserApplication @ i \<noteq> typeMALog @ j"
  "typeUser @ i \<noteq> typeMortgageApplication @ j"
  "typeUser @ i \<noteq> typeSalesContract @ j"
  "typeUser @ i \<noteq> typeAppraiserApplication @ j"
  "typeUser @ i \<noteq> typeMALog @ j"
  "typeMALog @ i \<noteq> typeMortgageApplication @ j"
  "typeMALog @ i \<noteq> typeSalesContract @ j"
  "typeMALog @ i \<noteq> typeAppraiserApplication @ j"
  "typeMALog @ i \<noteq> typeUser @ j"
  "typeMortgageApplication @ i \<noteq> maKeysName"
  "maKeysName \<noteq> typeMortgageApplication @ i"
  "typeMortgageApplication @ i \<noteq> scKeysName"
  "scKeysName \<noteq> typeMortgageApplication @ i"
  "typeMortgageApplication @ i \<noteq> aaKeysName"
  "aaKeysName \<noteq> typeMortgageApplication @ i"
  "typeMortgageApplication @ i \<noteq> maLogKeysName"
  "maLogKeysName \<noteq> typeMortgageApplication @ i"
  "typeMortgageApplication @ i \<noteq> bcLogsKey"
  "bcLogsKey \<noteq> typeMortgageApplication @ i"
  "typeSalesContract @ i \<noteq> maKeysName"
  "maKeysName \<noteq> typeSalesContract @ i"
  "typeSalesContract @ i \<noteq> scKeysName"
  "scKeysName \<noteq> typeSalesContract @ i"
  "typeSalesContract @ i \<noteq> aaKeysName"
  "aaKeysName \<noteq> typeSalesContract @ i"
  "typeSalesContract @ i \<noteq> maLogKeysName"
  "maLogKeysName \<noteq> typeSalesContract @ i"
  "typeSalesContract @ i \<noteq> bcLogsKey"
  "bcLogsKey \<noteq> typeSalesContract @ i"
  "typeAppraiserApplication @ i \<noteq> maKeysName"
  "maKeysName \<noteq> typeAppraiserApplication @ i"
  "typeAppraiserApplication @ i \<noteq> scKeysName"
  "scKeysName \<noteq> typeAppraiserApplication @ i"
  "typeAppraiserApplication @ i \<noteq> aaKeysName"
  "aaKeysName \<noteq> typeAppraiserApplication @ i"
  "typeAppraiserApplication @ i \<noteq> maLogKeysName"
  "maLogKeysName \<noteq> typeAppraiserApplication @ i"
  "typeAppraiserApplication @ i \<noteq> bcLogsKey"
  "bcLogsKey \<noteq> typeAppraiserApplication @ i"
  "typeUser @ i \<noteq> maKeysName"
  "maKeysName \<noteq> typeUser @ i"
  "typeUser @ i \<noteq> scKeysName"
  "scKeysName \<noteq> typeUser @ i"
  "typeUser @ i \<noteq> aaKeysName"
  "aaKeysName \<noteq> typeUser @ i"
  "typeUser @ i \<noteq> maLogKeysName"
  "maLogKeysName \<noteq> typeUser @ i"
  "typeUser @ i \<noteq> bcLogsKey"
  "bcLogsKey \<noteq> typeUser @ i"
  "typeMALog @ i \<noteq> maKeysName"
  "maKeysName \<noteq> typeMALog @ i"
  "typeMALog @ i \<noteq> scKeysName"
  "scKeysName \<noteq> typeMALog @ i"
  "typeMALog @ i \<noteq> aaKeysName"
  "aaKeysName \<noteq> typeMALog @ i"
  "typeMALog @ i \<noteq> maLogKeysName"
  "maLogKeysName \<noteq> typeMALog @ i"
  "typeMALog @ i \<noteq> bcLogsKey"
  "bcLogsKey \<noteq> typeMALog @ i"
  "maKeysName \<noteq> scKeysName"
  "maKeysName \<noteq> aaKeysName"
  "maKeysName \<noteq> maLogKeysName"
  "maKeysName \<noteq> bcLogsKey"
  "scKeysName \<noteq> maKeysName"
  "scKeysName \<noteq> aaKeysName"
  "scKeysName \<noteq> maLogKeysName"
  "scKeysName \<noteq> bcLogsKey"
  "aaKeysName \<noteq> maKeysName"
  "aaKeysName \<noteq> scKeysName"
  "aaKeysName \<noteq> maLogKeysName"
  "aaKeysName \<noteq> bcLogsKey"
  "maLogKeysName \<noteq> maKeysName"
  "maLogKeysName \<noteq> scKeysName"
  "maLogKeysName \<noteq> aaKeysName"
  "maLogKeysName \<noteq> bcLogsKey"
  "bcLogsKey \<noteq> maKeysName"
  "bcLogsKey \<noteq> scKeysName"
  "bcLogsKey \<noteq> aaKeysName"
  "bcLogsKey \<noteq> maLogKeysName"
  by (simp_all add: prefix_defs name_defs)


lemma AddKey_nowTime [simp]: "nowTime (fst (AddKey s i kn)) = nowTime s"
  by (simp add: AddKey_def Let_def split: prod.splits option.splits)

lemma unmarshal_empty: "unmarshal dec z [] = (z, Some SerializationFailure)"
  by (simp add: unmarshal_def parse_json_def skip_ws_def)





lemma GetMALogHolder_frame:
  "k \<noteq> i \<Longrightarrow> GetState (fst (GetMALogHolder s i)) k = GetState s k"
  by (simp add: GetMALogHolder_def Let_def split: prod.splits option.splits)

lemma Get_nowTime [simp]:
  "nowTime (fst (GetBuyer s i)) = nowTime s"
  "nowTime (fst (GetBank s i)) = nowTime s"
  "nowTime (fst (GetSeller s i)) = nowTime s"
  "nowTime (fst (GetAppraiser s i)) = nowTime s"
  "nowTime (fst (GetMALogHolder s i)) = nowTime s"
  by (simp_all add: GetBuyer_def GetBank_def GetSeller_def GetAppraiser_def GetMALogHolder_def
      Let_def split: prod.splits option.splits)





subsection \<open>The audit log\<close>

lemma AppendMALog_frame:
  "k \<noteq> typeMALog @ i \<Longrightarrow> k \<noteq> maLogKeysName \<Longrightarrow> k \<noteq> bcLogsKey \<Longrightarrow>
   GetState (fst (AppendMALog s a t st i)) k = GetState s k"
  by (simp add: AppendMALog_def Let_def split_beta SaveMALogHolder_def SaveMALogKeys_def
      SaveBCLogs_def GetMALogHolder_frame split: prod.splits option.splits)

lemma AppendMALog_nowTime [simp]: "nowTime (fst (AppendMALog s a t st i)) = nowTime s"
  by (simp add: AppendMALog_def Let_def split_beta SaveMALogHolder_def SaveMALogKeys_def
      SaveBCLogs_def split: prod.splits option.splits)

lemma GetMALogHolder_result:
  "fst (snd (GetMALogHolder s k)) = fst (Unmarshal_MALogHolder (GetState s k))"
  by (simp add: GetMALogHolder_def Let_def Unmarshal_MALogHolder_def unmarshal_empty
      split: prod.splits option.splits)

lemma AppendMALog_document_log:
  "document_log (fst (AppendMALog stub action text status i)) j =
     (if j = i then document_log stub i @ [newMALog stub action text status i]
      else document_log stub j)"
  by (simp add: AppendMALog_def document_log_def Let_def split_beta
      SaveMALogHolder_def SaveMALogKeys_def SaveBCLogs_def GetMALogHolder_result
      GetMALogHolder_frame split: prod.splits option.splits)

lemma GetBCLogs_result: "GetBCLogs s = (logs, None) \<Longrightarrow> logs = global_log s"
  by (auto simp: GetBCLogs_def global_log_def Let_def Unmarshal_MALogs_def unmarshal_empty
      split: prod.splits option.splits if_splits)

lemma global_log_cong:
  "GetState s bcLogsKey = GetState s' bcLogsKey \<Longrightarrow> global_log s = global_log s'"
  by (simp add: global_log_def)

lemma AppendMALog_global_log:
  assumes "snd (AppendMALog stub action text status i) = None"
  shows "global_log (fst (AppendMALog stub action text status i)) =
     global_log stub @ [newMALog stub action text status i]"
proof -
  let ?key = "typeMALog @ i"
  let ?s2 = "SaveMALogHolder (fst (GetMALogHolder stub ?key))
      ((fst (snd (GetMALogHolder stub ?key)))\<lparr>MALogs :=
         MALogs (fst (snd (GetMALogHolder stub ?key))) @ [newMALog stub action text status i]\<rparr>) ?key"
  have "snd (GetMALogKeys ?s2) = None"
    using assms
    by (auto simp: AppendMALog_def Let_def split_beta split: prod.splits option.splits)
  then obtain keys where k: "GetMALogKeys ?s2 = (keys, None)"
    by (cases "GetMALogKeys ?s2") auto
  let ?s3 = "SaveMALogKeys ?s2 (keys @ [?key])"
  have "snd (GetBCLogs ?s3) = None"
    using assms k
    by (auto simp: AppendMALog_def Let_def split_beta split: prod.splits option.splits)
  then obtain logs where l: "GetBCLogs ?s3 = (logs, None)"
    by (cases "GetBCLogs ?s3") auto
  have "logs = global_log ?s3" using l by (rule GetBCLogs_result)
  also have "\<dots> = global_log stub"
    by (rule global_log_cong)
      (simp add: SaveMALogKeys_def SaveMALogHolder_def GetMALogHolder_frame)
  finally have logs: "logs = global_log stub" .
  have "fst (AppendMALog stub action text status i) =
      SaveBCLogs ?s3 (logs @ [newMALog stub action text status i])"
    using k l by (simp add: AppendMALog_def Let_def split_beta)
  then show ?thesis using logs by (simp add: global_log_def SaveBCLogs_def)
qed

section \<open>Creating documents\<close>




section \<open>Updating a mortgage application\<close>


lemma stored_MortgageApplication_AppendMALog [simp]:
  "stored_MortgageApplication (fst (AppendMALog s a t st j)) i = stored_MortgageApplication s i"
  by (simp add: stored_MortgageApplication_def AppendMALog_frame)

lemma stored_MortgageApplication_PutState [simp]:
  "stored_MortgageApplication (PutState s (typeMortgageApplication @ i) (Marshal_MortgageApplication ma)) i = ma"
  by (simp add: stored_MortgageApplication_def)

lemma document_log_PutState_ma [simp]:
  "document_log (PutState s (typeMortgageApplication @ j) v) i = document_log s i"
  by (simp add: document_log_def)





lemma UpdateMortgageApplication_frame:
  assumes "k \<noteq> typeMortgageApplication @ i" "k \<noteq> typeMALog @ i" "k \<noteq> maLogKeysName" "k \<noteq> bcLogsKey"
  shows "GetState (fst (UpdateMortgageApplication s c a (i # input # r))) k = GetState s k"
  using assms
  by (simp add: UpdateMortgageApplication_def GetMortgageApplication_def Let_def split_beta
      SaveMortgageApplication_def AppendMALog_frame split: prod.splits option.splits)


section \<open>Updating an appraiser application\<close>



lemma stored_AppraiserApplication_frames [simp]:
  "stored_AppraiserApplication (fst (AppendMALog s a t st j)) i = stored_AppraiserApplication s i"
  "stored_AppraiserApplication (fst (UpdateMortgageApplication s c af (j # inp # r))) i
     = stored_AppraiserApplication s i"
  "stored_AppraiserApplication (PutState s (typeAppraiserApplication @ i)
     (Marshal_AppraiserApplication aa)) i = aa"
  by (simp_all add: stored_AppraiserApplication_def AppendMALog_frame
      UpdateMortgageApplication_frame)

lemma stored_MortgageApplication_PutState_other [simp]:
  "k \<noteq> typeMortgageApplication @ i \<Longrightarrow>
   stored_MortgageApplication (PutState s k v) i = stored_MortgageApplication s i"
  by (simp add: stored_MortgageApplication_def)





section \<open>Party records after a creation\<close>



section \<open>Updates that change nothing\<close>


lemma TrimSpace_Nil [simp]: "TrimSpace [] = []"
  by (simp add: TrimSpace_def)



lemma document_log_PutState_other [simp]:
  "k \<noteq> typeMALog @ i \<Longrightarrow> document_log (PutState s k v) i = document_log s i"
  by (simp add: document_log_def)






section \<open>The claims\<close>

subsection \<open>Key namespace\<close>

text \<open>
  Claim C1. \<^verbatim>\<open>GetStateKey\<close> is injective across kinds: whenever it produces keys for
  two kinds that differ, the keys differ, whatever the two ids are. (A kind outside the
  thirteen of the source produces no key but the error \<^term>\<open>InvalidType\<close>.)
\<close>

theorem GetStateKey_injective_across_kinds:
  assumes "GetStateKey id1 k1 = (key1, None)" and "GetStateKey id2 k2 = (key2, None)"
    and "k1 \<noteq> k2"
  shows "key1 \<noteq> key2"
  using assms
  by (auto simp: GetStateKey_def prefix_defs split: if_splits)

theorem GetStateKey_injective_across_kinds_witness:
  "GetStateKey ''ad:7'' PROPERTY = (''prop:ad:7'', None) \<and>
   GetStateKey '':7'' PROPERTYAD = (''propad::7'', None) \<and>
   PROPERTY \<noteq> PROPERTYAD \<and> ''prop:ad:7'' \<noteq> ''propad::7''"
proof -
  have h1: "GetStateKey ''ad:7'' PROPERTY = (''prop:ad:7'', None)"
    by (simp add: GetStateKey_def kind_defs prefix_defs)
  have h2: "GetStateKey '':7'' PROPERTYAD = (''propad::7'', None)"
    by (simp add: GetStateKey_def kind_defs prefix_defs)
  have h3: "PROPERTY \<noteq> PROPERTYAD"
    by (simp add: kind_defs)
  from GetStateKey_injective_across_kinds [OF h1 h2 h3] h1 h2 h3 show ?thesis
    by blast
qed

text \<open>
  Claim C2 describes \<^verbatim>\<open>AddKey\<close> as reading and writing the list under the name it is
  given. The source reads \<^verbatim>\<open>keysName\<close> but writes \<^verbatim>\<open>maKeysName\<close>. Called for the
  sales-contract list on a ledger whose mortgage-application list holds one key, it
  leaves the sales-contract list absent and replaces the mortgage-application list by
  the one new key.
\<close>

theorem AddKey_writes_under_maKeysName:
  \<open>GetState (PutState ex_stub maKeysName ''["ma:m1"]'') scKeysName = [] \<and>
   snd (AddKey (PutState ex_stub maKeysName ''["ma:m1"]'') ''sc:c1'' scKeysName) = (True, None) \<and>
   GetState (fst (AddKey (PutState ex_stub maKeysName ''["ma:m1"]'') ''sc:c1'' scKeysName))
     scKeysName = [] \<and>
   GetState (fst (AddKey (PutState ex_stub maKeysName ''["ma:m1"]'') ''sc:c1'' scKeysName))
     maKeysName = ''["sc:c1"]''\<close>
  by code_simp


subsection \<open>Reading a document\<close>

text \<open>
  Claim C5. For a stored mortgage application (the bytes under its key decode without
  error), \<^verbatim>\<open>GetMortgageApplication\<close> returns the document and its bytes exactly when
  the caller is the document's buyer, or its reviewer, or has the role Auditor; every
  other caller gets the error \<^term>\<open>Forbidden\<close>, whatever the document holds.
\<close>

theorem GetMortgageApplication_access:
  assumes "Unmarshal_MortgageApplication (GetState stub (typeMortgageApplication @ maId))
             = (ma, None)"
  shows "GetMortgageApplication stub callerId callerAffiliation (maId # rest) =
     (if callerId = ma_BuyerId ma \<or> callerId = ma_ReviewerId ma \<or> callerAffiliation = AUDITOR_A
      then (ma, GetState stub (typeMortgageApplication @ maId), None)
      else (ma, [], Some Forbidden))"
  using assms by (simp add: GetMortgageApplication_def)

theorem GetMortgageApplication_access_witness:
  "Unmarshal_MortgageApplication (GetState ex_ledger (typeMortgageApplication @ ''m1''))
     = (ex_ma, None) \<and>
   GetMortgageApplication ex_ledger ''alice'' BUYER_A [''m1''] = (ex_ma, ex_ma_body, None) \<and>
   GetMortgageApplication ex_ledger ''bank1'' BANK_A [''m1''] = (ex_ma, ex_ma_body, None) \<and>
   GetMortgageApplication ex_ledger ''audrey'' AUDITOR_A [''m1''] = (ex_ma, ex_ma_body, None) \<and>
   GetMortgageApplication ex_ledger ''mallory'' BANK_A [''m1''] = (ex_ma, [], Some Forbidden)"
proof -
  have h: "Unmarshal_MortgageApplication (GetState ex_ledger (typeMortgageApplication @ ''m1''))
     = (ex_ma, None)"
    by code_simp
  have b: "GetState ex_ledger (typeMortgageApplication @ ''m1'') = ex_ma_body"
    by (simp add: ex_ledger_def prefix_defs)
  have f: "ma_BuyerId ex_ma = ''alice''" "ma_ReviewerId ex_ma = ''bank1''"
    by (simp_all add: ex_ma_def)
  show ?thesis
    using h b f
      GetMortgageApplication_access [OF h, of "''alice''" BUYER_A "[]"]
      GetMortgageApplication_access [OF h, of "''bank1''" BANK_A "[]"]
      GetMortgageApplication_access [OF h, of "''audrey''" AUDITOR_A "[]"]
      GetMortgageApplication_access [OF h, of "''mallory''" BANK_A "[]"]
    by (simp add: BANK_A_def AUDITOR_A_def)
qed

text \<open>
  Claim C6, as stated, fails: \<^verbatim>\<open>GetSalesContract\<close> does not compare the caller with
  the contract's \<^verbatim>\<open>reviewerId\<close>; it lets every caller with the role Bank read the
  contract. Here a bank that is neither seller, buyer nor reviewer of the contract reads
  it.
\<close>

theorem GetSalesContract_other_bank_counterexample:
  "GetSalesContract ex_ledger ''bank2'' BANK_A [''c1''] = (ex_sc, ex_sc_body, None) \<and>
   ''bank2'' \<noteq> sc_SellerId ex_sc \<and> ''bank2'' \<noteq> sc_BuyerId ex_sc \<and>
   ''bank2'' \<noteq> sc_ReviewerId ex_sc \<and> BANK_A \<noteq> AUDITOR_A"
  by code_simp

text \<open>
  Claim C6, amended. For a stored sales contract, \<^verbatim>\<open>GetSalesContract\<close> returns the
  document exactly when the caller is the contract's seller, or its buyer, or has the
  role Auditor, or has the role Bank (any bank); every other caller gets
  \<^term>\<open>Forbidden\<close>.
\<close>

theorem GetSalesContract_access:
  assumes "Unmarshal_SalesContract (GetState stub (typeSalesContract @ maId)) = (sc, None)"
  shows "GetSalesContract stub callerId callerAffiliation (maId # rest) =
     (if callerId = sc_SellerId sc \<or> callerId = sc_BuyerId sc \<or> callerAffiliation = AUDITOR_A
         \<or> callerAffiliation = BANK_A
      then (sc, GetState stub (typeSalesContract @ maId), None)
      else (sc, [], Some Forbidden))"
  using assms by (simp add: GetSalesContract_def)

theorem GetSalesContract_access_witness:
  "Unmarshal_SalesContract (GetState ex_ledger (typeSalesContract @ ''c1'')) = (ex_sc, None) \<and>
   GetSalesContract ex_ledger ''sam'' SELLER_A [''c1''] = (ex_sc, ex_sc_body, None) \<and>
   GetSalesContract ex_ledger ''app1'' APPRAISER_A [''c1''] = (ex_sc, [], Some Forbidden)"
proof -
  have h: "Unmarshal_SalesContract (GetState ex_ledger (typeSalesContract @ ''c1''))
     = (ex_sc, None)"
    by code_simp
  have b: "GetState ex_ledger (typeSalesContract @ ''c1'') = ex_sc_body"
    by (simp add: ex_ledger_def prefix_defs)
  have f: "sc_SellerId ex_sc = ''sam''" "sc_BuyerId ex_sc = ''alice''"
    by (simp_all add: ex_sc_def)
  show ?thesis
    using h b f
      GetSalesContract_access [OF h, of "''sam''" SELLER_A "[]"]
      GetSalesContract_access [OF h, of "''app1''" APPRAISER_A "[]"]
    by (simp add: SELLER_A_def APPRAISER_A_def BANK_A_def AUDITOR_A_def)
qed

subsection \<open>Creating a document and reading it back\<close>



subsection \<open>The audit log\<close>

text \<open>
  Claim C10. The entry \<^verbatim>\<open>AppendMALog\<close> appends, for whatever operation calls it, has
  an empty \<^verbatim>\<open>buyerId\<close> and an empty \<^verbatim>\<open>reviewerId\<close>; its other five fields are the
  document id, the status, the action and the text it was given and the time of the
  call. The entry is appended to the log of the document and, when \<^verbatim>\<open>AppendMALog\<close>
  returns no error, to the log of the chain.
\<close>

theorem AppendMALog_entry:
  "document_log (fst (AppendMALog stub action text status i)) i =
     document_log stub i @
       [\<lparr>log_MortgageApplicationId = i, log_BuyerId = [], log_ReviewerId = [],
         log_Status = status, log_Action = action, log_Text = text,
         log_Timestamp = nowTime stub\<rparr>]
   \<and> (snd (AppendMALog stub action text status i) = None \<longrightarrow>
        global_log (fst (AppendMALog stub action text status i)) =
          global_log stub @
            [\<lparr>log_MortgageApplicationId = i, log_BuyerId = [], log_ReviewerId = [],
              log_Status = status, log_Action = action, log_Text = text,
              log_Timestamp = nowTime stub\<rparr>])"
  using AppendMALog_document_log [of stub action "text" status i i]
    AppendMALog_global_log [of stub action "text" status i]
  by (simp add: newMALog_def)

theorem AppendMALog_entry_witness:
  "snd (AppendMALog ex_ledger ''UpdateSalesContract'' ''note'' ''Signed'' ''c1'') = None \<and>
   global_log (fst (AppendMALog ex_ledger ''UpdateSalesContract'' ''note'' ''Signed'' ''c1'')) =
     global_log ex_ledger @
       [\<lparr>log_MortgageApplicationId = ''c1'', log_BuyerId = [], log_ReviewerId = [],
         log_Status = ''Signed'', log_Action = ''UpdateSalesContract'', log_Text = ''note'',
         log_Timestamp = nowTime ex_ledger\<rparr>]"
proof -
  have h: "snd (AppendMALog ex_ledger ''UpdateSalesContract'' ''note'' ''Signed'' ''c1'') = None"
    by code_simp
  show ?thesis
    using h AppendMALog_entry [of ex_ledger "''UpdateSalesContract''" "''note''" "''Signed''" "''c1''"]
    by blast
qed

subsection \<open>Creating a mortgage application\<close>



subsection \<open>Updating a mortgage application\<close>



subsection \<open>Updates that set no field\<close>




subsection \<open>The fair market value set by the appraiser\<close>





end
